theory Spec2Isabelle
  imports Complex_Main
begin

section \<open>The joystick servo controller of main.ts\<close>

text \<open>
  The namespace \<open>joystick_servo\<close> keeps its whole state in module-level variables
  (main.ts, lines 16-54). The model passes them around as one record, whose numeric
  fields have the type \<open>'n\<close>. In the control loop \<open>'n\<close> is \<open>int\<close>: degrees, raw
  joystick samples and milliseconds are integers, as the data model of the
  specification says, and \<open>Math.min\<close> and \<open>Math.max\<close> on them are \<open>min\<close> and
  \<open>max\<close>. The variables themselves are JavaScript numbers, and a caller can pass any
  number to an entry point, \<open>NaN\<close> included. The functions that only compare and copy
  angles, \<open>setServoAngles\<close> and \<open>moveServos\<close>, are therefore modelled a second time
  with \<open>'n\<close> the type \<open>number\<close> below, and the properties that depend on what a
  \<open>NaN\<close> does are stated for that model.

  What the code does to the outside world (servo writes, serial output, callbacks,
  pauses) is appended to the field \<open>trace\<close>, oldest event first. The five pin
  variables (lines 17-21) are assigned only by \<open>init\<close> and only select the hardware
  channel, so a servo write names its channel by the axis whose pin variable the
  source passes.
\<close>

datatype axis = X | Y

datatype 'n event_of =
    ServoWrite axis 'n              \<comment> \<open>\<open>pins.servoWritePin(_servoXPin, a)\<close> or the Y pin\<close>
  | Pause int                       \<comment> \<open>\<open>basic.pause(ms)\<close>\<close>
  | SerialValue axis int            \<comment> \<open>\<open>serial.writeValue("x", v)\<close>, \<open>("y", v)\<close>\<close>
  | SerialButtonValue int           \<comment> \<open>\<open>serial.writeValue("btn", v)\<close>\<close>
  | SerialServoSet axis 'n          \<comment> \<open>the line written after a servo write (lines 293, 303)\<close>
  | SerialButtonPressed             \<comment> \<open>the line of line 372\<close>
  | SerialInitReport 'n 'n          \<comment> \<open>the lines of lines 101-108\<close>
  | SerialLimitsUpdated 'n 'n 'n 'n      \<comment> \<open>the line of line 146\<close>
  | SerialThresholdsUpdated         \<comment> \<open>the line of line 180\<close>
  | SerialDebugOn                   \<comment> \<open>lines 197-198\<close>
  | SerialDebugOff                  \<comment> \<open>line 200\<close>
  | ButtonPressedCall               \<comment> \<open>\<open>_buttonPressedHandler()\<close> is entered\<close>
  | SerialAngle axis 'n             \<comment> \<open>\<open>serial.writeValue("X", a)\<close>, \<open>("Y", a)\<close> of README.md\<close>
  | AngleChangedCall 'n 'n          \<comment> \<open>\<open>_angleChangedHandler(x, y)\<close> is entered\<close>

type_synonym event = "int event_of"

record 'n module_state =
  servoMinAngle :: 'n
  servoMaxAngle :: 'n
  servoInitAngle :: 'n
  servoStep :: 'n
  xMaxThresholdMax :: 'n
  xMaxThresholdMin :: 'n
  xMinThreshold :: 'n
  yMaxThresholdMax :: 'n
  yMaxThresholdMin :: 'n
  yMinThreshold :: 'n
  xAngle :: 'n
  yAngle :: 'n
  lastXAngle :: 'n
  lastYAngle :: 'n
  updated :: bool
  lastActionTime :: int
  debugMode :: bool
  trace :: "'n event_of list"

type_synonym state = "int module_state"

text \<open>
  The two callback slots (lines 53-54). A callback is user code that runs on the
  control task and may call any entry point, so it is a function on the state;
  \<open>None\<close> is the \<open>null\<close> the slots start with. The slots are kept apart from
  the state record, so a callback that registers another callback is not modelled.
\<close>

record 'n callbacks =
  buttonPressedHandler :: "('n module_state \<Rightarrow> 'n module_state) option"
  angleChangedHandler :: "('n \<Rightarrow> 'n \<Rightarrow> 'n module_state \<Rightarrow> 'n module_state) option"

type_synonym handlers = "int callbacks"

text \<open>The values the variable initialisers give (lines 24-54).\<close>

definition initial_state :: state where
  "initial_state =
     \<lparr> servoMinAngle = 0, servoMaxAngle = 180, servoInitAngle = 90, servoStep = 15,
       xMaxThresholdMax = 780, xMaxThresholdMin = 760, xMinThreshold = 250,
       yMaxThresholdMax = 800, yMaxThresholdMin = 760, yMinThreshold = 250,
       xAngle = 90, yAngle = 90, lastXAngle = 90, lastYAngle = 90,
       updated = False, lastActionTime = 0, debugMode = False, trace = [] \<rparr>"

definition no_handlers :: "'n callbacks" where
  "no_handlers = \<lparr> buttonPressedHandler = None, angleChangedHandler = None \<rparr>"

definition emit :: "'n event_of \<Rightarrow> 'n module_state \<Rightarrow> 'n module_state" where
  "emit e s = s\<lparr>trace := trace s @ [e]\<rparr>"

text \<open>\<open>if (_debugMode) { serial.write... }\<close>\<close>

definition debug :: "'n event_of \<Rightarrow> 'n module_state \<Rightarrow> 'n module_state" where
  "debug e s = (if debugMode s then emit e s else s)"

subsection \<open>Actuation: moveServos (lines 286-311)\<close>

text \<open>
  On integer angles, where \<open>!=\<close> is plain inequality. \<open>moveServos_num\<close> below is the
  same function on numbers, and agrees with this one on integer states.
\<close>

definition moveServoX :: "state \<Rightarrow> state" where
  "moveServoX s =
     (if xAngle s \<noteq> lastXAngle s
      then debug (SerialServoSet X (xAngle s))
             ((emit (ServoWrite X (xAngle s)) s)\<lparr>lastXAngle := xAngle s\<rparr>)
      else s)"

definition moveServoY :: "state \<Rightarrow> state" where
  "moveServoY s =
     (if yAngle s \<noteq> lastYAngle s
      then debug (SerialServoSet Y (yAngle s))
             ((emit (ServoWrite Y (yAngle s)) s)\<lparr>lastYAngle := yAngle s\<rparr>)
      else s)"

text \<open>Lines 307-310: the call of the angle-change callback and its guard.\<close>

definition angleChangedDispatch :: "handlers \<Rightarrow> state \<Rightarrow> state" where
  "angleChangedDispatch hs s =
     (case angleChangedHandler hs of
        Some h \<Rightarrow>
          (if xAngle s \<noteq> lastXAngle s \<or> yAngle s \<noteq> lastYAngle s
           then h (xAngle s) (yAngle s) (emit (AngleChangedCall (xAngle s) (yAngle s)) s)
           else s)
      | None \<Rightarrow> s)"

definition moveServos :: "handlers \<Rightarrow> state \<Rightarrow> state" where
  "moveServos hs s = angleChangedDispatch hs (moveServoY (moveServoX s))"

subsection \<open>The entry points (lines 73-283)\<close>

text \<open>
  \<open>init\<close> without its last statement, the start of the loop, which is \<open>run\<close> below.
  The pins it stores are left out, see above.
\<close>

definition init :: "state \<Rightarrow> state" where
  "init s =
     (let s1 = s\<lparr>xAngle := servoInitAngle s, yAngle := servoInitAngle s,
                 lastXAngle := servoInitAngle s, lastYAngle := servoInitAngle s\<rparr>;
          s2 = emit (ServoWrite X (xAngle s1)) s1;
          s3 = emit (Pause 100) s2;
          s4 = emit (ServoWrite Y (yAngle s3)) s3
      in debug (SerialInitReport (xAngle s4) (yAngle s4)) s4)"

definition setServoLimits :: "int \<Rightarrow> int \<Rightarrow> int \<Rightarrow> int \<Rightarrow> state \<Rightarrow> state" where
  "setServoLimits minAngle maxAngle initAngle step s =
     debug (SerialLimitsUpdated minAngle maxAngle initAngle step)
       (s\<lparr>servoMinAngle := minAngle, servoMaxAngle := maxAngle,
          servoInitAngle := initAngle, servoStep := step,
          xAngle := initAngle, yAngle := initAngle\<rparr>)"

definition setJoystickThresholds ::
  "int \<Rightarrow> int \<Rightarrow> int \<Rightarrow> int \<Rightarrow> int \<Rightarrow> int \<Rightarrow> state \<Rightarrow> state" where
  "setJoystickThresholds xMaxMin xMaxMax xMin yMaxMin yMaxMax yMin s =
     debug SerialThresholdsUpdated
       (s\<lparr>xMaxThresholdMin := xMaxMin, xMaxThresholdMax := xMaxMax, xMinThreshold := xMin,
          yMaxThresholdMin := yMaxMin, yMaxThresholdMax := yMaxMax, yMinThreshold := yMin\<rparr>)"

definition setDebugMode :: "bool \<Rightarrow> state \<Rightarrow> state" where
  "setDebugMode enabled s =
     (let s1 = s\<lparr>debugMode := enabled\<rparr>
      in if debugMode s1 then emit SerialDebugOn s1 else emit SerialDebugOff s1)"

definition onButtonPressed ::
  "('n module_state \<Rightarrow> 'n module_state) \<Rightarrow> 'n callbacks \<Rightarrow> 'n callbacks" where
  "onButtonPressed handler hs = hs\<lparr>buttonPressedHandler := Some handler\<rparr>"

definition onAngleChanged ::
  "('n \<Rightarrow> 'n \<Rightarrow> 'n module_state \<Rightarrow> 'n module_state) \<Rightarrow> 'n callbacks \<Rightarrow> 'n callbacks" where
  "onAngleChanged handler hs = hs\<lparr>angleChangedHandler := Some handler\<rparr>"

text \<open>
  The angle-change callback that README.md registers as its example (lines 54-58):
  it writes the two angles it is given to the serial line.
\<close>

definition showAngles :: "'n \<Rightarrow> 'n \<Rightarrow> 'n module_state \<Rightarrow> 'n module_state" where
  "showAngles x y s = emit (SerialAngle Y y) (emit (SerialAngle X x) s)"

text \<open>
  \<open>Math.constrain\<close> is a function of the MakeCode core library, not of this
  repository: \<open>value < low ? low : value > high ? high : value\<close>. Here it is on
  integers, as \<open>setServoAngles\<close> after it; on numbers they are \<open>constrain_num\<close> and
  \<open>setServoAngles_num\<close> below.
\<close>

definition constrain :: "int \<Rightarrow> int \<Rightarrow> int \<Rightarrow> int" where
  "constrain v low high = (if v < low then low else if v > high then high else v)"

definition setServoAngles :: "handlers \<Rightarrow> int \<Rightarrow> int \<Rightarrow> state \<Rightarrow> state" where
  "setServoAngles hs x y s =
     moveServos hs
       (s\<lparr>xAngle := constrain x (servoMinAngle s) (servoMaxAngle s),
          yAngle := constrain y (servoMinAngle s) (servoMaxAngle s)\<rparr>)"

definition resetServos :: "handlers \<Rightarrow> state \<Rightarrow> state" where
  "resetServos hs s =
     moveServos hs (s\<lparr>xAngle := servoInitAngle s, yAngle := servoInitAngle s\<rparr>)"

definition getXAngle :: "'n module_state \<Rightarrow> 'n" where
  "getXAngle s = xAngle s"

definition getYAngle :: "'n module_state \<Rightarrow> 'n" where
  "getYAngle s = yAngle s"

subsection \<open>One pass of the loop body (lines 316-385)\<close>

text \<open>What one pass reads from the hardware (lines 318-325).\<close>

record inputs =
  currentTime :: int
  xValue :: int
  yValue :: int
  buttonState :: int

text \<open>Lines 327-331.\<close>

definition debugReadings :: "inputs \<Rightarrow> state \<Rightarrow> state" where
  "debugReadings i s =
     (if debugMode s
      then emit (SerialButtonValue (if buttonState i = 0 then 1 else 0))
             (emit (SerialValue Y (yValue i)) (emit (SerialValue X (xValue i)) s))
      else s)"

text \<open>Lines 337-346.\<close>

definition controlX :: "inputs \<Rightarrow> state \<Rightarrow> state" where
  "controlX i s =
     (if xValue i > xMaxThresholdMin s \<and> xValue i \<le> xMaxThresholdMax s
      then s\<lparr>xAngle := min (xAngle s + servoStep s) (servoMaxAngle s), updated := True\<rparr>
      else if xValue i < xMinThreshold s
      then s\<lparr>xAngle := max (xAngle s - servoStep s) (servoMinAngle s), updated := True\<rparr>
      else s)"

text \<open>Lines 348-357.\<close>

definition controlY :: "inputs \<Rightarrow> state \<Rightarrow> state" where
  "controlY i s =
     (if yValue i > yMaxThresholdMin s \<and> yValue i \<le> yMaxThresholdMax s
      then s\<lparr>yAngle := min (yAngle s + servoStep s) (servoMaxAngle s), updated := True\<rparr>
      else if yValue i < yMinThreshold s
      then s\<lparr>yAngle := max (yAngle s - servoStep s) (servoMinAngle s), updated := True\<rparr>
      else s)"

text \<open>Lines 359-374.\<close>

definition buttonBranch :: "handlers \<Rightarrow> inputs \<Rightarrow> state \<Rightarrow> state" where
  "buttonBranch hs i s =
     (if buttonState i = 0
      then debug SerialButtonPressed
             ((case buttonPressedHandler hs of
                 Some h \<Rightarrow> h (emit ButtonPressedCall s)
               | None \<Rightarrow> s\<lparr>xAngle := servoInitAngle s, yAngle := servoInitAngle s\<rparr>)
              \<lparr>updated := True\<rparr>)
      else s)"

text \<open>Lines 376-380.\<close>

definition actOnUpdate :: "handlers \<Rightarrow> inputs \<Rightarrow> state \<Rightarrow> state" where
  "actOnUpdate hs i s =
     (if updated s then moveServos hs (s\<lparr>lastActionTime := currentTime i\<rparr>) else s)"

text \<open>Lines 335-357: the flag is cleared, then each axis is decided.\<close>

definition axisDecision :: "inputs \<Rightarrow> state \<Rightarrow> state" where
  "axisDecision i s = controlY i (controlX i (s\<lparr>updated := False\<rparr>))"

text \<open>Lines 335-380, the body of the time gate.\<close>

definition gatedBody :: "handlers \<Rightarrow> inputs \<Rightarrow> state \<Rightarrow> state" where
  "gatedBody hs i s = actOnUpdate hs i (buttonBranch hs i (axisDecision i s))"

definition loopBody :: "handlers \<Rightarrow> inputs \<Rightarrow> state \<Rightarrow> state" where
  "loopBody hs i s =
     (let s1 = debugReadings i s;
          s2 = (if currentTime i - lastActionTime s1 > 100 then gatedBody hs i s1 else s1)
      in emit (Pause 50) s2)"

text \<open>
  \<open>basic.forever\<close> calls the body again and again and never returns. \<open>run\<close> is the
  state after the passes whose inputs are listed, first pass first.
\<close>

fun run :: "handlers \<Rightarrow> inputs list \<Rightarrow> state \<Rightarrow> state" where
  "run hs [] s = s"
| "run hs (i # is) s = run hs is (loopBody hs i s)"

subsection \<open>setServoAngles and moveServos on JavaScript numbers\<close>

text \<open>
  A JavaScript number is a finite value, an infinity or \<open>NaN\<close>. The two functions
  only compare numbers and copy them, so a finite value is taken as the real it
  stands for. \<open>lt\<close>, \<open>gt\<close>, \<open>le\<close> and \<open>ne\<close> are the language's \<open><\<close>, \<open>>\<close>, \<open><=\<close> and
  \<open>!=\<close> on numbers: every ordering comparison with \<open>NaN\<close> is false, and \<open>NaN != v\<close>
  is true for every \<open>v\<close>, \<open>NaN\<close> itself included.
\<close>

datatype number = Fin real | PosInf | NegInf | NaN

fun lt :: "number \<Rightarrow> number \<Rightarrow> bool" where
  "lt NaN b = False"
| "lt a NaN = False"
| "lt (Fin a) (Fin b) = (a < b)"
| "lt PosInf b = False"
| "lt a NegInf = False"
| "lt a b = True"

definition gt :: "number \<Rightarrow> number \<Rightarrow> bool" where
  "gt a b = lt b a"

fun le :: "number \<Rightarrow> number \<Rightarrow> bool" where
  "le NaN b = False"
| "le a NaN = False"
| "le (Fin a) (Fin b) = (a \<le> b)"
| "le NegInf b = True"
| "le a PosInf = True"
| "le a b = False"

fun ne :: "number \<Rightarrow> number \<Rightarrow> bool" where
  "ne NaN b = True"
| "ne a NaN = True"
| "ne a b = (a \<noteq> b)"

type_synonym nstate = "number module_state"

type_synonym nhandlers = "number callbacks"

text \<open>The values of the variable initialisers (lines 24-54) as numbers.\<close>

definition initial_state_num :: nstate where
  "initial_state_num =
     \<lparr> servoMinAngle = Fin 0, servoMaxAngle = Fin 180, servoInitAngle = Fin 90,
       servoStep = Fin 15,
       xMaxThresholdMax = Fin 780, xMaxThresholdMin = Fin 760, xMinThreshold = Fin 250,
       yMaxThresholdMax = Fin 800, yMaxThresholdMin = Fin 760, yMinThreshold = Fin 250,
       xAngle = Fin 90, yAngle = Fin 90, lastXAngle = Fin 90, lastYAngle = Fin 90,
       updated = False, lastActionTime = 0, debugMode = False, trace = [] \<rparr>"

text \<open>\<open>Math.constrain\<close>: \<open>value < low ? low : value > high ? high : value\<close>.\<close>

definition constrain_num :: "number \<Rightarrow> number \<Rightarrow> number \<Rightarrow> number" where
  "constrain_num v low high = (if lt v low then low else if gt v high then high else v)"

text \<open>Lines 288-295, 298-305 and 307-310.\<close>

definition moveServoX_num :: "nstate \<Rightarrow> nstate" where
  "moveServoX_num s =
     (if ne (xAngle s) (lastXAngle s)
      then debug (SerialServoSet X (xAngle s))
             ((emit (ServoWrite X (xAngle s)) s)\<lparr>lastXAngle := xAngle s\<rparr>)
      else s)"

definition moveServoY_num :: "nstate \<Rightarrow> nstate" where
  "moveServoY_num s =
     (if ne (yAngle s) (lastYAngle s)
      then debug (SerialServoSet Y (yAngle s))
             ((emit (ServoWrite Y (yAngle s)) s)\<lparr>lastYAngle := yAngle s\<rparr>)
      else s)"

definition angleChangedDispatch_num :: "nhandlers \<Rightarrow> nstate \<Rightarrow> nstate" where
  "angleChangedDispatch_num hs s =
     (case angleChangedHandler hs of
        Some h \<Rightarrow>
          (if ne (xAngle s) (lastXAngle s) \<or> ne (yAngle s) (lastYAngle s)
           then h (xAngle s) (yAngle s) (emit (AngleChangedCall (xAngle s) (yAngle s)) s)
           else s)
      | None \<Rightarrow> s)"

text \<open>Lines 286-311.\<close>

definition moveServos_num :: "nhandlers \<Rightarrow> nstate \<Rightarrow> nstate" where
  "moveServos_num hs s = angleChangedDispatch_num hs (moveServoY_num (moveServoX_num s))"

text \<open>Lines 241-248.\<close>

definition setServoAngles_num :: "nhandlers \<Rightarrow> number \<Rightarrow> number \<Rightarrow> nstate \<Rightarrow> nstate" where
  "setServoAngles_num hs x y s =
     moveServos_num hs
       (s\<lparr>xAngle := constrain_num x (servoMinAngle s) (servoMaxAngle s),
          yAngle := constrain_num y (servoMinAngle s) (servoMaxAngle s)\<rparr>)"

text \<open>
  The integer states among the number states: \<open>num\<close> reads an integer as a number,
  \<open>lift_state\<close> does so in every field and event. On these states the two models
  agree (section \<open>The integer model inside the number model\<close>).
\<close>

definition num :: "int \<Rightarrow> number" where
  "num v = Fin (of_int v)"

definition lift_state :: "state \<Rightarrow> nstate" where
  "lift_state s =
     \<lparr> servoMinAngle = num (servoMinAngle s), servoMaxAngle = num (servoMaxAngle s),
       servoInitAngle = num (servoInitAngle s), servoStep = num (servoStep s),
       xMaxThresholdMax = num (xMaxThresholdMax s),
       xMaxThresholdMin = num (xMaxThresholdMin s),
       xMinThreshold = num (xMinThreshold s),
       yMaxThresholdMax = num (yMaxThresholdMax s),
       yMaxThresholdMin = num (yMaxThresholdMin s),
       yMinThreshold = num (yMinThreshold s),
       xAngle = num (xAngle s), yAngle = num (yAngle s),
       lastXAngle = num (lastXAngle s), lastYAngle = num (lastYAngle s),
       updated = updated s, lastActionTime = lastActionTime s,
       debugMode = debugMode s, trace = map (map_event_of num) (trace s) \<rparr>"

subsection \<open>Notions the properties are stated with\<close>

text \<open>The events a step appended: what \<open>s'\<close> has in its trace beyond \<open>s\<close>.\<close>

definition issued :: "'n module_state \<Rightarrow> 'n module_state \<Rightarrow> 'n event_of list" where
  "issued s s' = drop (length (trace s)) (trace s')"

text \<open>The angles written to the servo of one axis, in order.\<close>

fun servoWrites :: "axis \<Rightarrow> 'n event_of list \<Rightarrow> 'n list" where
  "servoWrites a [] = []"
| "servoWrites a (ServoWrite b v # es) =
     (if a = b then v # servoWrites a es else servoWrites a es)"
| "servoWrites a (e # es) = servoWrites a es"

text \<open>Whether an event is an entry into the angle-change callback.\<close>

fun isAngleChangedCall :: "'n event_of \<Rightarrow> bool" where
  "isAngleChangedCall (AngleChangedCall x y) = True"
| "isAngleChangedCall e = False"

text \<open>The invariant of the configuration and the range of the two angles.\<close>

definition config_ok :: "state \<Rightarrow> bool" where
  "config_ok s \<longleftrightarrow>
     servoMinAngle s \<le> servoInitAngle s \<and> servoInitAngle s \<le> servoMaxAngle s \<and>
     0 < servoStep s"

definition angles_in_range :: "state \<Rightarrow> bool" where
  "angles_in_range s \<longleftrightarrow>
     servoMinAngle s \<le> xAngle s \<and> xAngle s \<le> servoMaxAngle s \<and>
     servoMinAngle s \<le> yAngle s \<and> yAngle s \<le> servoMaxAngle s"

definition limits_inv :: "state \<Rightarrow> bool" where
  "limits_inv s \<longleftrightarrow> config_ok s \<and> angles_in_range s"

section \<open>Frame lemmas\<close>

lemma emit_frame [simp]:
  "servoMinAngle (emit e s) = servoMinAngle s"
  "servoMaxAngle (emit e s) = servoMaxAngle s"
  "servoInitAngle (emit e s) = servoInitAngle s"
  "servoStep (emit e s) = servoStep s"
  "xMaxThresholdMax (emit e s) = xMaxThresholdMax s"
  "xMaxThresholdMin (emit e s) = xMaxThresholdMin s"
  "xMinThreshold (emit e s) = xMinThreshold s"
  "yMaxThresholdMax (emit e s) = yMaxThresholdMax s"
  "yMaxThresholdMin (emit e s) = yMaxThresholdMin s"
  "yMinThreshold (emit e s) = yMinThreshold s"
  "xAngle (emit e s) = xAngle s"
  "yAngle (emit e s) = yAngle s"
  "lastXAngle (emit e s) = lastXAngle s"
  "lastYAngle (emit e s) = lastYAngle s"
  "updated (emit e s) = updated s"
  "lastActionTime (emit e s) = lastActionTime s"
  "debugMode (emit e s) = debugMode s"
  "trace (emit e s) = trace s @ [e]"
  by (simp_all add: emit_def)

lemma debug_frame [simp]:
  "servoMinAngle (debug e s) = servoMinAngle s"
  "servoMaxAngle (debug e s) = servoMaxAngle s"
  "servoInitAngle (debug e s) = servoInitAngle s"
  "servoStep (debug e s) = servoStep s"
  "xMaxThresholdMax (debug e s) = xMaxThresholdMax s"
  "xMaxThresholdMin (debug e s) = xMaxThresholdMin s"
  "xMinThreshold (debug e s) = xMinThreshold s"
  "yMaxThresholdMax (debug e s) = yMaxThresholdMax s"
  "yMaxThresholdMin (debug e s) = yMaxThresholdMin s"
  "yMinThreshold (debug e s) = yMinThreshold s"
  "xAngle (debug e s) = xAngle s"
  "yAngle (debug e s) = yAngle s"
  "lastXAngle (debug e s) = lastXAngle s"
  "lastYAngle (debug e s) = lastYAngle s"
  "updated (debug e s) = updated s"
  "lastActionTime (debug e s) = lastActionTime s"
  "debugMode (debug e s) = debugMode s"
  "trace (debug e s) = trace s @ (if debugMode s then [e] else [])"
  by (simp_all add: debug_def)

lemma debugReadings_frame [simp]:
  "servoMinAngle (debugReadings i s) = servoMinAngle s"
  "servoMaxAngle (debugReadings i s) = servoMaxAngle s"
  "servoInitAngle (debugReadings i s) = servoInitAngle s"
  "servoStep (debugReadings i s) = servoStep s"
  "xMaxThresholdMax (debugReadings i s) = xMaxThresholdMax s"
  "xMaxThresholdMin (debugReadings i s) = xMaxThresholdMin s"
  "xMinThreshold (debugReadings i s) = xMinThreshold s"
  "yMaxThresholdMax (debugReadings i s) = yMaxThresholdMax s"
  "yMaxThresholdMin (debugReadings i s) = yMaxThresholdMin s"
  "yMinThreshold (debugReadings i s) = yMinThreshold s"
  "xAngle (debugReadings i s) = xAngle s"
  "yAngle (debugReadings i s) = yAngle s"
  "lastXAngle (debugReadings i s) = lastXAngle s"
  "lastYAngle (debugReadings i s) = lastYAngle s"
  "updated (debugReadings i s) = updated s"
  "lastActionTime (debugReadings i s) = lastActionTime s"
  "debugMode (debugReadings i s) = debugMode s"
  by (simp_all add: debugReadings_def)

lemma debugReadings_trace:
  "trace (debugReadings i s) =
     trace s @
     (if debugMode s
      then [SerialValue X (xValue i), SerialValue Y (yValue i),
            SerialButtonValue (if buttonState i = 0 then 1 else 0)]
      else [])"
  by (simp add: debugReadings_def)

lemma moveServoX_frame [simp]:
  "servoMinAngle (moveServoX s) = servoMinAngle s"
  "servoMaxAngle (moveServoX s) = servoMaxAngle s"
  "servoInitAngle (moveServoX s) = servoInitAngle s"
  "servoStep (moveServoX s) = servoStep s"
  "xMaxThresholdMax (moveServoX s) = xMaxThresholdMax s"
  "xMaxThresholdMin (moveServoX s) = xMaxThresholdMin s"
  "xMinThreshold (moveServoX s) = xMinThreshold s"
  "yMaxThresholdMax (moveServoX s) = yMaxThresholdMax s"
  "yMaxThresholdMin (moveServoX s) = yMaxThresholdMin s"
  "yMinThreshold (moveServoX s) = yMinThreshold s"
  "xAngle (moveServoX s) = xAngle s"
  "yAngle (moveServoX s) = yAngle s"
  "lastXAngle (moveServoX s) = xAngle s"
  "lastYAngle (moveServoX s) = lastYAngle s"
  "updated (moveServoX s) = updated s"
  "lastActionTime (moveServoX s) = lastActionTime s"
  "debugMode (moveServoX s) = debugMode s"
  by (simp_all add: moveServoX_def)

lemma moveServoY_frame [simp]:
  "servoMinAngle (moveServoY s) = servoMinAngle s"
  "servoMaxAngle (moveServoY s) = servoMaxAngle s"
  "servoInitAngle (moveServoY s) = servoInitAngle s"
  "servoStep (moveServoY s) = servoStep s"
  "xMaxThresholdMax (moveServoY s) = xMaxThresholdMax s"
  "xMaxThresholdMin (moveServoY s) = xMaxThresholdMin s"
  "xMinThreshold (moveServoY s) = xMinThreshold s"
  "yMaxThresholdMax (moveServoY s) = yMaxThresholdMax s"
  "yMaxThresholdMin (moveServoY s) = yMaxThresholdMin s"
  "yMinThreshold (moveServoY s) = yMinThreshold s"
  "xAngle (moveServoY s) = xAngle s"
  "yAngle (moveServoY s) = yAngle s"
  "lastXAngle (moveServoY s) = lastXAngle s"
  "lastYAngle (moveServoY s) = yAngle s"
  "updated (moveServoY s) = updated s"
  "lastActionTime (moveServoY s) = lastActionTime s"
  "debugMode (moveServoY s) = debugMode s"
  by (simp_all add: moveServoY_def)

lemma moveServoX_trace:
  "trace (moveServoX s) =
     trace s @
     (if xAngle s \<noteq> lastXAngle s
      then ServoWrite X (xAngle s) # (if debugMode s then [SerialServoSet X (xAngle s)] else [])
      else [])"
  by (simp add: moveServoX_def)

lemma moveServoY_trace:
  "trace (moveServoY s) =
     trace s @
     (if yAngle s \<noteq> lastYAngle s
      then ServoWrite Y (yAngle s) # (if debugMode s then [SerialServoSet Y (yAngle s)] else [])
      else [])"
  by (simp add: moveServoY_def)

text \<open>
  When the guard of line 308 is evaluated, both \<open>_lastXAngle\<close> and \<open>_lastYAngle\<close>
  already equal the current angles, so \<open>moveServos\<close> is the two servo updates alone.
\<close>

lemma moveServos_eq: "moveServos hs s = moveServoY (moveServoX s)"
  by (simp add: moveServos_def angleChangedDispatch_def split: option.split)

lemma moveServos_frame [simp]:
  "servoMinAngle (moveServos hs s) = servoMinAngle s"
  "servoMaxAngle (moveServos hs s) = servoMaxAngle s"
  "servoInitAngle (moveServos hs s) = servoInitAngle s"
  "servoStep (moveServos hs s) = servoStep s"
  "xMaxThresholdMax (moveServos hs s) = xMaxThresholdMax s"
  "xMaxThresholdMin (moveServos hs s) = xMaxThresholdMin s"
  "xMinThreshold (moveServos hs s) = xMinThreshold s"
  "yMaxThresholdMax (moveServos hs s) = yMaxThresholdMax s"
  "yMaxThresholdMin (moveServos hs s) = yMaxThresholdMin s"
  "yMinThreshold (moveServos hs s) = yMinThreshold s"
  "xAngle (moveServos hs s) = xAngle s"
  "yAngle (moveServos hs s) = yAngle s"
  "lastXAngle (moveServos hs s) = xAngle s"
  "lastYAngle (moveServos hs s) = yAngle s"
  "updated (moveServos hs s) = updated s"
  "lastActionTime (moveServos hs s) = lastActionTime s"
  "debugMode (moveServos hs s) = debugMode s"
  by (simp_all add: moveServos_eq)

lemma moveServos_trace:
  "trace (moveServos hs s) =
     trace s @
     (if xAngle s \<noteq> lastXAngle s
      then ServoWrite X (xAngle s) # (if debugMode s then [SerialServoSet X (xAngle s)] else [])
      else []) @
     (if yAngle s \<noteq> lastYAngle s
      then ServoWrite Y (yAngle s) # (if debugMode s then [SerialServoSet Y (yAngle s)] else [])
      else [])"
  by (simp add: moveServos_eq moveServoY_trace moveServoX_trace)

lemma issued_append [simp]: "trace s' = trace s @ es \<Longrightarrow> issued s s' = es"
  by (simp add: issued_def)

lemma issued_moveServos:
  "issued s (moveServos hs s) =
     (if xAngle s \<noteq> lastXAngle s
      then ServoWrite X (xAngle s) # (if debugMode s then [SerialServoSet X (xAngle s)] else [])
      else []) @
     (if yAngle s \<noteq> lastYAngle s
      then ServoWrite Y (yAngle s) # (if debugMode s then [SerialServoSet Y (yAngle s)] else [])
      else [])"
  by (rule issued_append) (rule moveServos_trace)

lemma servoWrites_append [simp]:
  "servoWrites a (es @ fs) = servoWrites a es @ servoWrites a fs"
  by (induction a es rule: servoWrites.induct) simp_all

lemma controlX_frame [simp]:
  "servoMinAngle (controlX i s) = servoMinAngle s"
  "servoMaxAngle (controlX i s) = servoMaxAngle s"
  "servoInitAngle (controlX i s) = servoInitAngle s"
  "servoStep (controlX i s) = servoStep s"
  "xMaxThresholdMax (controlX i s) = xMaxThresholdMax s"
  "xMaxThresholdMin (controlX i s) = xMaxThresholdMin s"
  "xMinThreshold (controlX i s) = xMinThreshold s"
  "yMaxThresholdMax (controlX i s) = yMaxThresholdMax s"
  "yMaxThresholdMin (controlX i s) = yMaxThresholdMin s"
  "yMinThreshold (controlX i s) = yMinThreshold s"
  "yAngle (controlX i s) = yAngle s"
  "lastXAngle (controlX i s) = lastXAngle s"
  "lastYAngle (controlX i s) = lastYAngle s"
  "lastActionTime (controlX i s) = lastActionTime s"
  "debugMode (controlX i s) = debugMode s"
  "trace (controlX i s) = trace s"
  by (simp_all add: controlX_def)

lemma controlY_frame [simp]:
  "servoMinAngle (controlY i s) = servoMinAngle s"
  "servoMaxAngle (controlY i s) = servoMaxAngle s"
  "servoInitAngle (controlY i s) = servoInitAngle s"
  "servoStep (controlY i s) = servoStep s"
  "xMaxThresholdMax (controlY i s) = xMaxThresholdMax s"
  "xMaxThresholdMin (controlY i s) = xMaxThresholdMin s"
  "xMinThreshold (controlY i s) = xMinThreshold s"
  "yMaxThresholdMax (controlY i s) = yMaxThresholdMax s"
  "yMaxThresholdMin (controlY i s) = yMaxThresholdMin s"
  "yMinThreshold (controlY i s) = yMinThreshold s"
  "xAngle (controlY i s) = xAngle s"
  "lastXAngle (controlY i s) = lastXAngle s"
  "lastYAngle (controlY i s) = lastYAngle s"
  "lastActionTime (controlY i s) = lastActionTime s"
  "debugMode (controlY i s) = debugMode s"
  "trace (controlY i s) = trace s"
  by (simp_all add: controlY_def)

lemma controlX_xAngle:
  "xAngle (controlX i s) =
     (if xMaxThresholdMin s < xValue i \<and> xValue i \<le> xMaxThresholdMax s
      then min (xAngle s + servoStep s) (servoMaxAngle s)
      else if xValue i < xMinThreshold s
      then max (xAngle s - servoStep s) (servoMinAngle s)
      else xAngle s)"
  by (simp add: controlX_def)

lemma controlY_yAngle:
  "yAngle (controlY i s) =
     (if yMaxThresholdMin s < yValue i \<and> yValue i \<le> yMaxThresholdMax s
      then min (yAngle s + servoStep s) (servoMaxAngle s)
      else if yValue i < yMinThreshold s
      then max (yAngle s - servoStep s) (servoMinAngle s)
      else yAngle s)"
  by (simp add: controlY_def)

lemma controlX_updated:
  "updated (controlX i s) \<longleftrightarrow>
     updated s \<or> xMaxThresholdMin s < xValue i \<and> xValue i \<le> xMaxThresholdMax s \<or>
     xValue i < xMinThreshold s"
  by (auto simp add: controlX_def)

lemma controlY_updated:
  "updated (controlY i s) \<longleftrightarrow>
     updated s \<or> yMaxThresholdMin s < yValue i \<and> yValue i \<le> yMaxThresholdMax s \<or>
     yValue i < yMinThreshold s"
  by (auto simp add: controlY_def)

lemma axisDecision_frame [simp]:
  "servoMinAngle (axisDecision i s) = servoMinAngle s"
  "servoMaxAngle (axisDecision i s) = servoMaxAngle s"
  "servoInitAngle (axisDecision i s) = servoInitAngle s"
  "servoStep (axisDecision i s) = servoStep s"
  "xMaxThresholdMax (axisDecision i s) = xMaxThresholdMax s"
  "xMaxThresholdMin (axisDecision i s) = xMaxThresholdMin s"
  "xMinThreshold (axisDecision i s) = xMinThreshold s"
  "yMaxThresholdMax (axisDecision i s) = yMaxThresholdMax s"
  "yMaxThresholdMin (axisDecision i s) = yMaxThresholdMin s"
  "yMinThreshold (axisDecision i s) = yMinThreshold s"
  "lastXAngle (axisDecision i s) = lastXAngle s"
  "lastYAngle (axisDecision i s) = lastYAngle s"
  "lastActionTime (axisDecision i s) = lastActionTime s"
  "debugMode (axisDecision i s) = debugMode s"
  "trace (axisDecision i s) = trace s"
  by (simp_all add: axisDecision_def)

lemma axisDecision_xAngle:
  "xAngle (axisDecision i s) =
     (if xMaxThresholdMin s < xValue i \<and> xValue i \<le> xMaxThresholdMax s
      then min (xAngle s + servoStep s) (servoMaxAngle s)
      else if xValue i < xMinThreshold s
      then max (xAngle s - servoStep s) (servoMinAngle s)
      else xAngle s)"
  by (simp add: axisDecision_def controlX_xAngle)

lemma axisDecision_yAngle:
  "yAngle (axisDecision i s) =
     (if yMaxThresholdMin s < yValue i \<and> yValue i \<le> yMaxThresholdMax s
      then min (yAngle s + servoStep s) (servoMaxAngle s)
      else if yValue i < yMinThreshold s
      then max (yAngle s - servoStep s) (servoMinAngle s)
      else yAngle s)"
  by (simp add: axisDecision_def controlY_yAngle)

lemma axisDecision_updated:
  "updated (axisDecision i s) \<longleftrightarrow>
     xMaxThresholdMin s < xValue i \<and> xValue i \<le> xMaxThresholdMax s \<or>
     xValue i < xMinThreshold s \<or>
     yMaxThresholdMin s < yValue i \<and> yValue i \<le> yMaxThresholdMax s \<or>
     yValue i < yMinThreshold s"
  by (simp add: axisDecision_def controlY_updated controlX_updated)

lemma actOnUpdate_frame [simp]:
  "servoMinAngle (actOnUpdate hs i s) = servoMinAngle s"
  "servoMaxAngle (actOnUpdate hs i s) = servoMaxAngle s"
  "servoInitAngle (actOnUpdate hs i s) = servoInitAngle s"
  "servoStep (actOnUpdate hs i s) = servoStep s"
  "xMaxThresholdMax (actOnUpdate hs i s) = xMaxThresholdMax s"
  "xMaxThresholdMin (actOnUpdate hs i s) = xMaxThresholdMin s"
  "xMinThreshold (actOnUpdate hs i s) = xMinThreshold s"
  "yMaxThresholdMax (actOnUpdate hs i s) = yMaxThresholdMax s"
  "yMaxThresholdMin (actOnUpdate hs i s) = yMaxThresholdMin s"
  "yMinThreshold (actOnUpdate hs i s) = yMinThreshold s"
  "xAngle (actOnUpdate hs i s) = xAngle s"
  "yAngle (actOnUpdate hs i s) = yAngle s"
  "updated (actOnUpdate hs i s) = updated s"
  "debugMode (actOnUpdate hs i s) = debugMode s"
  "lastActionTime (actOnUpdate hs i s) = (if updated s then currentTime i else lastActionTime s)"
  by (simp_all add: actOnUpdate_def)

text \<open>The pass when the gate is closed, and when it is open and the button is up.\<close>

lemma loopBody_closed:
  "\<not> currentTime i - lastActionTime s > 100 \<Longrightarrow>
   loopBody hs i s = emit (Pause 50) (debugReadings i s)"
  by (simp add: loopBody_def Let_def)

lemma loopBody_open:
  "currentTime i - lastActionTime s > 100 \<Longrightarrow>
   loopBody hs i s =
     emit (Pause 50)
       (actOnUpdate hs i (buttonBranch hs i (axisDecision i (debugReadings i s))))"
  by (simp add: loopBody_def Let_def gatedBody_def)

lemma buttonBranch_released: "buttonState i \<noteq> 0 \<Longrightarrow> buttonBranch hs i s = s"
  by (simp add: buttonBranch_def)

lemma loopBody_released:
  "currentTime i - lastActionTime s > 100 \<Longrightarrow> buttonState i \<noteq> 0 \<Longrightarrow>
   loopBody hs i s = emit (Pause 50) (actOnUpdate hs i (axisDecision i (debugReadings i s)))"
  by (simp add: loopBody_open buttonBranch_released)

lemma moveServoX_same: "xAngle s = lastXAngle s \<Longrightarrow> moveServoX s = s"
  by (simp add: moveServoX_def)

lemma moveServoY_same: "yAngle s = lastYAngle s \<Longrightarrow> moveServoY s = s"
  by (simp add: moveServoY_def)

lemma moveServos_same:
  "xAngle s = lastXAngle s \<Longrightarrow> yAngle s = lastYAngle s \<Longrightarrow> moveServos hs s = s"
  by (simp add: moveServos_eq moveServoX_same moveServoY_same)

lemma moveServos_idem: "moveServos hs (moveServos hs s) = moveServos hs s"
  by (rule moveServos_same) simp_all

text \<open>The invariant reads six fields only.\<close>

lemma limits_inv_frame:
  "servoMinAngle t = servoMinAngle s \<Longrightarrow> servoMaxAngle t = servoMaxAngle s \<Longrightarrow>
   servoInitAngle t = servoInitAngle s \<Longrightarrow> servoStep t = servoStep s \<Longrightarrow>
   xAngle t = xAngle s \<Longrightarrow> yAngle t = yAngle s \<Longrightarrow> limits_inv t = limits_inv s"
  by (simp add: limits_inv_def config_ok_def angles_in_range_def)

lemma limits_inv_emit [simp]: "limits_inv (emit e s) = limits_inv s"
  by (rule limits_inv_frame) simp_all

lemma limits_inv_debug [simp]: "limits_inv (debug e s) = limits_inv s"
  by (rule limits_inv_frame) simp_all

lemma limits_inv_debugReadings [simp]: "limits_inv (debugReadings i s) = limits_inv s"
  by (rule limits_inv_frame) simp_all

lemma limits_inv_moveServos [simp]: "limits_inv (moveServos hs s) = limits_inv s"
  by (rule limits_inv_frame) simp_all

lemma limits_inv_actOnUpdate [simp]: "limits_inv (actOnUpdate hs i s) = limits_inv s"
  by (rule limits_inv_frame) simp_all

lemma limits_inv_updated [simp]: "limits_inv (s\<lparr>updated := b\<rparr>) = limits_inv s"
  by (rule limits_inv_frame) simp_all

lemma axisDecision_limits_inv: "limits_inv s \<Longrightarrow> limits_inv (axisDecision i s)"
  by (auto simp add: limits_inv_def config_ok_def angles_in_range_def
      axisDecision_xAngle axisDecision_yAngle)

lemma resetServos_limits_inv: "limits_inv s \<Longrightarrow> limits_inv (resetServos hs s)"
  by (simp add: resetServos_def) (simp add: limits_inv_def config_ok_def angles_in_range_def)

lemma init_limits_inv: "config_ok s \<Longrightarrow> limits_inv (init s)"
  by (simp add: init_def Let_def limits_inv_def config_ok_def angles_in_range_def)

lemma buttonBranch_limits_inv:
  assumes "\<forall>h t. buttonPressedHandler hs = Some h \<longrightarrow> limits_inv t \<longrightarrow> limits_inv (h t)"
    and "limits_inv s"
  shows "limits_inv (buttonBranch hs i s)"
proof (cases "buttonState i = 0")
  case False
  with assms(2) show ?thesis
    by (simp add: buttonBranch_released)
next
  case True
  show ?thesis
  proof (cases "buttonPressedHandler hs")
    case None
    have "limits_inv (s\<lparr>xAngle := servoInitAngle s, yAngle := servoInitAngle s\<rparr>)"
      using assms(2) by (simp add: limits_inv_def config_ok_def angles_in_range_def)
    with True None show ?thesis
      by (simp add: buttonBranch_def)
  next
    case (Some h)
    from assms(2) have "limits_inv (emit ButtonPressedCall s)"
      by simp
    with assms(1) Some have "limits_inv (h (emit ButtonPressedCall s))"
      by blast
    with True Some show ?thesis
      by (simp add: buttonBranch_def)
  qed
qed

lemma loopBody_limits_inv:
  assumes "\<forall>h t. buttonPressedHandler hs = Some h \<longrightarrow> limits_inv t \<longrightarrow> limits_inv (h t)"
    and "limits_inv s"
  shows "limits_inv (loopBody hs i s)"
proof (cases "currentTime i - lastActionTime s > 100")
  case False
  with assms(2) show ?thesis
    by (simp add: loopBody_closed)
next
  case True
  from assms(2) have "limits_inv (axisDecision i (debugReadings i s))"
    by (simp add: axisDecision_limits_inv)
  with assms(1) have "limits_inv (buttonBranch hs i (axisDecision i (debugReadings i s)))"
    by (rule buttonBranch_limits_inv)
  with True show ?thesis
    by (simp add: loopBody_open)
qed

lemma run_limits_inv:
  assumes "\<forall>h t. buttonPressedHandler hs = Some h \<longrightarrow> limits_inv t \<longrightarrow> limits_inv (h t)"
  shows "limits_inv s \<Longrightarrow> limits_inv (run hs js s)"
proof (induction js arbitrary: s)
  case Nil
  then show ?case by simp
next
  case (Cons i js)
  from assms Cons.prems have "limits_inv (loopBody hs i s)"
    by (rule loopBody_limits_inv)
  then show ?case
    by (simp add: Cons.IH)
qed


text \<open>The pass when the gate is open and the button reads pressed.\<close>

lemma loopBody_pressed_default:
  assumes "currentTime i - lastActionTime s > 100" and "buttonState i = 0"
    and "buttonPressedHandler hs = None"
  shows "loopBody hs i s =
     emit (Pause 50)
       (moveServos hs
          ((debug SerialButtonPressed
              ((axisDecision i (debugReadings i s))
                 \<lparr>xAngle := servoInitAngle s, yAngle := servoInitAngle s, updated := True\<rparr>))
           \<lparr>lastActionTime := currentTime i\<rparr>))"
  using assms by (simp add: loopBody_open buttonBranch_def actOnUpdate_def)

lemma loopBody_pressed_handler:
  assumes "currentTime i - lastActionTime s > 100" and "buttonState i = 0"
    and "buttonPressedHandler hs = Some h"
  shows "loopBody hs i s =
     emit (Pause 50)
       (moveServos hs
          ((debug SerialButtonPressed
              ((h (emit ButtonPressedCall (axisDecision i (debugReadings i s))))
                 \<lparr>updated := True\<rparr>))
           \<lparr>lastActionTime := currentTime i\<rparr>))"
  using assms by (simp add: loopBody_open buttonBranch_def actOnUpdate_def)

lemma loopBody_closed_state:
  "\<not> currentTime i - lastActionTime s > 100 \<Longrightarrow>
   loopBody hs i s =
     s\<lparr>trace := trace s @
         (if debugMode s
          then [SerialValue X (xValue i), SerialValue Y (yValue i),
                SerialButtonValue (if buttonState i = 0 then 1 else 0)]
          else []) @ [Pause 50]\<rparr>"
  by (simp add: loopBody_closed emit_def debugReadings_def)

lemma loopBody_released_lastActionTime:
  "currentTime i - lastActionTime s > 100 \<Longrightarrow> buttonState i \<noteq> 0 \<Longrightarrow>
   lastActionTime (loopBody hs i s) =
     (if xMaxThresholdMin s < xValue i \<and> xValue i \<le> xMaxThresholdMax s \<or>
         xValue i < xMinThreshold s \<or>
         yMaxThresholdMin s < yValue i \<and> yValue i \<le> yMaxThresholdMax s \<or>
         yValue i < yMinThreshold s
      then currentTime i else lastActionTime s)"
  by (simp add: loopBody_released axisDecision_updated)

lemma loopBody_released_frame:
  assumes "currentTime i - lastActionTime s > 100" and "buttonState i \<noteq> 0"
  shows "servoMinAngle (loopBody hs i s) = servoMinAngle s"
    and "servoMaxAngle (loopBody hs i s) = servoMaxAngle s"
    and "servoStep (loopBody hs i s) = servoStep s"
    and "xMaxThresholdMax (loopBody hs i s) = xMaxThresholdMax s"
    and "xMaxThresholdMin (loopBody hs i s) = xMaxThresholdMin s"
    and "xMinThreshold (loopBody hs i s) = xMinThreshold s"
    and "xAngle (loopBody hs i s) = xAngle (axisDecision i s)"
  using assms by (simp_all add: loopBody_released axisDecision_xAngle)


lemma setServoLimits_fields:
  "servoMinAngle (setServoLimits mn mx ini st s) = mn"
  "servoMaxAngle (setServoLimits mn mx ini st s) = mx"
  "servoInitAngle (setServoLimits mn mx ini st s) = ini"
  "servoStep (setServoLimits mn mx ini st s) = st"
  "xAngle (setServoLimits mn mx ini st s) = ini"
  "yAngle (setServoLimits mn mx ini st s) = ini"
  "lastXAngle (setServoLimits mn mx ini st s) = lastXAngle s"
  "lastYAngle (setServoLimits mn mx ini st s) = lastYAngle s"
  "debugMode (setServoLimits mn mx ini st s) = debugMode s"
  by (simp_all add: setServoLimits_def)

lemma controlX_idle:
  "\<not> (xMaxThresholdMin s < xValue i \<and> xValue i \<le> xMaxThresholdMax s) \<Longrightarrow>
   \<not> xValue i < xMinThreshold s \<Longrightarrow> controlX i s = s"
  unfolding controlX_def by (rule if_not_P [THEN trans], assumption) (rule if_not_P)

lemma controlY_idle:
  "\<not> (yMaxThresholdMin s < yValue i \<and> yValue i \<le> yMaxThresholdMax s) \<Longrightarrow>
   \<not> yValue i < yMinThreshold s \<Longrightarrow> controlY i s = s"
  unfolding controlY_def by (rule if_not_P [THEN trans], assumption) (rule if_not_P)

lemma axisDecision_idle:
  assumes "\<not> (xMaxThresholdMin s < xValue i \<and> xValue i \<le> xMaxThresholdMax s)"
    and "\<not> xValue i < xMinThreshold s"
    and "\<not> (yMaxThresholdMin s < yValue i \<and> yValue i \<le> yMaxThresholdMax s)"
    and "\<not> yValue i < yMinThreshold s"
  shows "axisDecision i s = s\<lparr>updated := False\<rparr>"
proof -
  have "controlX i (s\<lparr>updated := False\<rparr>) = s\<lparr>updated := False\<rparr>"
    using assms(1,2) by (intro controlX_idle) simp_all
  moreover have "controlY i (s\<lparr>updated := False\<rparr>) = s\<lparr>updated := False\<rparr>"
    using assms(3,4) by (intro controlY_idle) simp_all
  ultimately show ?thesis
    by (simp add: axisDecision_def)
qed

lemma loopBody_idle:
  assumes "currentTime i - lastActionTime s > 100"
    and "\<not> (xMaxThresholdMin s < xValue i \<and> xValue i \<le> xMaxThresholdMax s)"
    and "\<not> xValue i < xMinThreshold s"
    and "\<not> (yMaxThresholdMin s < yValue i \<and> yValue i \<le> yMaxThresholdMax s)"
    and "\<not> yValue i < yMinThreshold s"
    and "buttonState i \<noteq> 0"
  shows "loopBody hs i s = emit (Pause 50) ((debugReadings i s)\<lparr>updated := False\<rparr>)"
proof -
  have "axisDecision i (debugReadings i s) = (debugReadings i s)\<lparr>updated := False\<rparr>"
    using assms(2-5) by (intro axisDecision_idle) simp_all
  then show ?thesis
    by (simp add: loopBody_released assms(1,6) actOnUpdate_def)
qed


section \<open>Lemmas on the number model\<close>

lemma NaN_right [simp]: "lt a NaN = False" "le a NaN = False" "ne a NaN = True"
  by (cases a; simp)+

lemma ne_iff: "ne a b \<longleftrightarrow> a = NaN \<or> b = NaN \<or> a \<noteq> b"
  by (cases a; cases b) simp_all

lemma ne_same [simp]: "ne a a \<longleftrightarrow> a = NaN"
  by (simp add: ne_iff)

lemma not_ne_eq: "\<not> ne a b \<Longrightarrow> a = b"
  by (simp add: ne_iff)

lemma le_not_NaN: "le a b \<Longrightarrow> a \<noteq> NaN \<and> b \<noteq> NaN"
  by (cases a; cases b) simp_all

lemma constrain_num_NaN [simp]: "constrain_num NaN low high = NaN"
  by (simp add: constrain_num_def gt_def)

lemma constrain_num_range:
  "v \<noteq> NaN \<Longrightarrow> le low high \<Longrightarrow>
   le low (constrain_num v low high) \<and> le (constrain_num v low high) high \<and>
   constrain_num v low high \<noteq> NaN"
  by (cases v; cases low; cases high) (auto simp add: constrain_num_def gt_def)

lemma moveServoX_num_frame [simp]:
  "servoMinAngle (moveServoX_num s) = servoMinAngle s"
  "servoMaxAngle (moveServoX_num s) = servoMaxAngle s"
  "xAngle (moveServoX_num s) = xAngle s"
  "yAngle (moveServoX_num s) = yAngle s"
  "lastYAngle (moveServoX_num s) = lastYAngle s"
  "debugMode (moveServoX_num s) = debugMode s"
  by (simp_all add: moveServoX_num_def)

lemma moveServoX_num_last [simp]: "lastXAngle (moveServoX_num s) = xAngle s"
  by (auto simp add: moveServoX_num_def dest: not_ne_eq)

lemma moveServoY_num_frame [simp]:
  "servoMinAngle (moveServoY_num s) = servoMinAngle s"
  "servoMaxAngle (moveServoY_num s) = servoMaxAngle s"
  "xAngle (moveServoY_num s) = xAngle s"
  "yAngle (moveServoY_num s) = yAngle s"
  "lastXAngle (moveServoY_num s) = lastXAngle s"
  "debugMode (moveServoY_num s) = debugMode s"
  by (simp_all add: moveServoY_num_def)

lemma moveServoY_num_last [simp]: "lastYAngle (moveServoY_num s) = yAngle s"
  by (auto simp add: moveServoY_num_def dest: not_ne_eq)

lemma moveServoX_num_trace:
  "trace (moveServoX_num s) =
     trace s @
     (if ne (xAngle s) (lastXAngle s)
      then ServoWrite X (xAngle s) # (if debugMode s then [SerialServoSet X (xAngle s)] else [])
      else [])"
  by (simp add: moveServoX_num_def)

lemma moveServoY_num_trace:
  "trace (moveServoY_num s) =
     trace s @
     (if ne (yAngle s) (lastYAngle s)
      then ServoWrite Y (yAngle s) # (if debugMode s then [SerialServoSet Y (yAngle s)] else [])
      else [])"
  by (simp add: moveServoY_num_def)

lemma issued_moveServoXY_num:
  "issued s (moveServoY_num (moveServoX_num s)) =
     (if ne (xAngle s) (lastXAngle s)
      then ServoWrite X (xAngle s) # (if debugMode s then [SerialServoSet X (xAngle s)] else [])
      else []) @
     (if ne (yAngle s) (lastYAngle s)
      then ServoWrite Y (yAngle s) # (if debugMode s then [SerialServoSet Y (yAngle s)] else [])
      else [])"
  by (rule issued_append) (simp add: moveServoY_num_trace moveServoX_num_trace)

text \<open>
  The guard of line 308 after the two updates: each last angle is the current one, so
  the guard holds exactly when a current angle is \<open>NaN\<close>.
\<close>

lemma guard_after_updates:
  "ne (xAngle (moveServoY_num (moveServoX_num s))) (lastXAngle (moveServoY_num (moveServoX_num s)))
   \<or> ne (yAngle (moveServoY_num (moveServoX_num s))) (lastYAngle (moveServoY_num (moveServoX_num s)))
   \<longleftrightarrow> xAngle s = NaN \<or> yAngle s = NaN"
  by simp

lemma moveServos_num_plain:
  "xAngle s \<noteq> NaN \<Longrightarrow> yAngle s \<noteq> NaN \<Longrightarrow>
   moveServos_num hs s = moveServoY_num (moveServoX_num s)"
  by (simp add: moveServos_num_def angleChangedDispatch_num_def split: option.split)

lemma moveServos_num_unregistered:
  "angleChangedHandler hs = None \<Longrightarrow> moveServos_num hs s = moveServoY_num (moveServoX_num s)"
  by (simp add: moveServos_num_def angleChangedDispatch_num_def)

lemma moveServos_num_called:
  "angleChangedHandler hs = Some h \<Longrightarrow> xAngle s = NaN \<or> yAngle s = NaN \<Longrightarrow>
   moveServos_num hs s =
     h (xAngle s) (yAngle s)
       (emit (AngleChangedCall (xAngle s) (yAngle s)) (moveServoY_num (moveServoX_num s)))"
  by (auto simp add: moveServos_num_def angleChangedDispatch_num_def)

lemma moveServoX_num_same: "\<not> ne (xAngle s) (lastXAngle s) \<Longrightarrow> moveServoX_num s = s"
  by (simp add: moveServoX_num_def)

lemma moveServoY_num_same: "\<not> ne (yAngle s) (lastYAngle s) \<Longrightarrow> moveServoY_num s = s"
  by (simp add: moveServoY_num_def)

lemma moveServoXY_num_idem:
  assumes "xAngle s \<noteq> NaN" and "yAngle s \<noteq> NaN"
  shows "moveServoY_num (moveServoX_num (moveServoY_num (moveServoX_num s)))
         = moveServoY_num (moveServoX_num s)"
proof -
  let ?t = "moveServoY_num (moveServoX_num s)"
  from assms(1) have "moveServoX_num ?t = ?t"
    by (intro moveServoX_num_same) simp
  moreover from assms(2) have "moveServoY_num ?t = ?t"
    by (intro moveServoY_num_same) simp
  ultimately show ?thesis
    by simp
qed

section \<open>The integer model inside the number model\<close>

lemma num_compare [simp]:
  "lt (num a) (num b) \<longleftrightarrow> a < b"
  "gt (num a) (num b) \<longleftrightarrow> a > b"
  "le (num a) (num b) \<longleftrightarrow> a \<le> b"
  "ne (num a) (num b) \<longleftrightarrow> a \<noteq> b"
  "num a \<noteq> NaN"
  by (simp_all add: num_def gt_def)

lemma constrain_num_agrees:
  "constrain_num (num v) (num low) (num high) = num (constrain v low high)"
  by (simp add: constrain_num_def constrain_def)

lemma lift_state_fields [simp]:
  "servoMinAngle (lift_state s) = num (servoMinAngle s)"
  "servoMaxAngle (lift_state s) = num (servoMaxAngle s)"
  "xAngle (lift_state s) = num (xAngle s)"
  "yAngle (lift_state s) = num (yAngle s)"
  "lastXAngle (lift_state s) = num (lastXAngle s)"
  "lastYAngle (lift_state s) = num (lastYAngle s)"
  "debugMode (lift_state s) = debugMode s"
  by (simp_all add: lift_state_def)

lemma moveServoX_num_agrees: "moveServoX_num (lift_state s) = lift_state (moveServoX s)"
  by (simp add: moveServoX_num_def moveServoX_def) (simp add: lift_state_def debug_def emit_def)

lemma moveServoY_num_agrees: "moveServoY_num (lift_state s) = lift_state (moveServoY s)"
  by (simp add: moveServoY_num_def moveServoY_def) (simp add: lift_state_def debug_def emit_def)

lemma moveServos_num_agrees: "moveServos_num nhs (lift_state s) = lift_state (moveServos hs s)"
  by (simp add: moveServos_num_plain moveServos_eq moveServoX_num_agrees moveServoY_num_agrees)

lemma setServoAngles_num_agrees:
  "setServoAngles_num nhs (num x) (num y) (lift_state s) = lift_state (setServoAngles hs x y s)"
proof -
  have "(lift_state s)\<lparr>xAngle := num (constrain x (servoMinAngle s) (servoMaxAngle s)),
                       yAngle := num (constrain y (servoMinAngle s) (servoMaxAngle s))\<rparr>
        = lift_state (s\<lparr>xAngle := constrain x (servoMinAngle s) (servoMaxAngle s),
                        yAngle := constrain y (servoMinAngle s) (servoMaxAngle s)\<rparr>)"
    by (simp add: lift_state_def)
  then show ?thesis
    by (simp add: setServoAngles_num_def setServoAngles_def constrain_num_agrees
        moveServos_num_agrees)
qed

section \<open>The properties\<close>

text \<open>
  C1, as amended. In a gated pass the axis decision (lines 335-357, before the button
  branch) leaves, for each axis independently, with previous angle \<open>a\<close> and raw
  reading \<open>r\<close>: \<open>min (a + step) angleMax\<close> if \<open>lowBand < r \<le> highBand\<close>; else
  \<open>max (a - step) angleMin\<close> if \<open>r < minThreshold\<close>; and \<open>a\<close> unchanged if
  \<open>minThreshold \<le> r\<close> and \<open>r \<le> lowBand\<close> or \<open>highBand < r\<close>. When the button
  does not read pressed, these are the angles at the end of the pass.
\<close>

theorem axis_decision_outcomes:
  "(xMaxThresholdMin s < xValue i \<and> xValue i \<le> xMaxThresholdMax s \<longrightarrow>
      xAngle (axisDecision i s) = min (xAngle s + servoStep s) (servoMaxAngle s)) \<and>
   (\<not> (xMaxThresholdMin s < xValue i \<and> xValue i \<le> xMaxThresholdMax s) \<and>
    xValue i < xMinThreshold s \<longrightarrow>
      xAngle (axisDecision i s) = max (xAngle s - servoStep s) (servoMinAngle s)) \<and>
   (xMinThreshold s \<le> xValue i \<and>
    (xValue i \<le> xMaxThresholdMin s \<or> xMaxThresholdMax s < xValue i) \<longrightarrow>
      xAngle (axisDecision i s) = xAngle s) \<and>
   (yMaxThresholdMin s < yValue i \<and> yValue i \<le> yMaxThresholdMax s \<longrightarrow>
      yAngle (axisDecision i s) = min (yAngle s + servoStep s) (servoMaxAngle s)) \<and>
   (\<not> (yMaxThresholdMin s < yValue i \<and> yValue i \<le> yMaxThresholdMax s) \<and>
    yValue i < yMinThreshold s \<longrightarrow>
      yAngle (axisDecision i s) = max (yAngle s - servoStep s) (servoMinAngle s)) \<and>
   (yMinThreshold s \<le> yValue i \<and>
    (yValue i \<le> yMaxThresholdMin s \<or> yMaxThresholdMax s < yValue i) \<longrightarrow>
      yAngle (axisDecision i s) = yAngle s) \<and>
   (currentTime i - lastActionTime s > 100 \<and> buttonState i \<noteq> 0 \<longrightarrow>
      xAngle (loopBody hs i s) = xAngle (axisDecision i s) \<and>
      yAngle (loopBody hs i s) = yAngle (axisDecision i s))"
proof -
  have "xAngle (loopBody hs i s) = xAngle (axisDecision i s) \<and>
        yAngle (loopBody hs i s) = yAngle (axisDecision i s)"
    if "currentTime i - lastActionTime s > 100" "buttonState i \<noteq> 0"
    using that by (simp add: loopBody_released axisDecision_xAngle axisDecision_yAngle)
  then show ?thesis
    by (simp add: axisDecision_xAngle axisDecision_yAngle)
qed

theorem axis_decision_outcomes_witness:
  "xAngle (loopBody no_handlers
      \<lparr>currentTime = 200, xValue = 770, yValue = 100, buttonState = 1\<rparr> initial_state) = 105 \<and>
   yAngle (loopBody no_handlers
      \<lparr>currentTime = 200, xValue = 770, yValue = 100, buttonState = 1\<rparr> initial_state) = 75 \<and>
   xAngle (loopBody no_handlers
      \<lparr>currentTime = 200, xValue = 100, yValue = 770, buttonState = 1\<rparr> initial_state) = 75 \<and>
   yAngle (loopBody no_handlers
      \<lparr>currentTime = 200, xValue = 100, yValue = 770, buttonState = 1\<rparr> initial_state) = 105 \<and>
   xAngle (loopBody no_handlers
      \<lparr>currentTime = 200, xValue = 500, yValue = 900, buttonState = 1\<rparr> initial_state) = 90 \<and>
   yAngle (loopBody no_handlers
      \<lparr>currentTime = 200, xValue = 500, yValue = 900, buttonState = 1\<rparr> initial_state) = 90"
  using
    axis_decision_outcomes [of initial_state
      "\<lparr>currentTime = 200, xValue = 770, yValue = 100, buttonState = 1\<rparr>" no_handlers]
    axis_decision_outcomes [of initial_state
      "\<lparr>currentTime = 200, xValue = 100, yValue = 770, buttonState = 1\<rparr>" no_handlers]
    axis_decision_outcomes [of initial_state
      "\<lparr>currentTime = 200, xValue = 500, yValue = 900, buttonState = 1\<rparr>" no_handlers]
  by (simp add: initial_state_def)

text \<open>
  C1 as the specification states it also leaves the angle unchanged for every reading
  above \<open>highBand\<close>. The thresholds are not validated, and with \<open>minThreshold\<close> above
  \<open>highBand\<close> such a reading takes the decrease branch: thresholds
  \<open>(760, 780, 1000)\<close>, reading 900, gate open, button up, angle 90 becomes 75.
\<close>

theorem axis_decision_above_band_counterexample:
  "currentTime \<lparr>currentTime = 200, xValue = 900, yValue = 500, buttonState = 1\<rparr>
     - lastActionTime (setJoystickThresholds 760 780 1000 760 800 250 initial_state) > 100 \<and>
   xMaxThresholdMax (setJoystickThresholds 760 780 1000 760 800 250 initial_state)
     < xValue \<lparr>currentTime = 200, xValue = 900, yValue = 500, buttonState = 1\<rparr> \<and>
   xAngle (setJoystickThresholds 760 780 1000 760 800 250 initial_state) = 90 \<and>
   xAngle (axisDecision \<lparr>currentTime = 200, xValue = 900, yValue = 500, buttonState = 1\<rparr>
      (setJoystickThresholds 760 780 1000 760 800 250 initial_state)) = 75 \<and>
   xAngle (loopBody no_handlers
      \<lparr>currentTime = 200, xValue = 900, yValue = 500, buttonState = 1\<rparr>
      (setJoystickThresholds 760 780 1000 760 800 250 initial_state)) = 75"
  by (simp add: loopBody_released axisDecision_xAngle setJoystickThresholds_def
      initial_state_def)

text \<open>
  C2. With \<open>angleMin \<le> angleInit \<le> angleMax\<close> and a positive step, both angles are
  within \<open>[angleMin, angleMax]\<close> after any number of passes of the loop, whatever
  the inputs: when the loop starts after \<open>init\<close>, or in any state whose angles are in
  range. A button callback, being user code, is assumed to keep the configuration
  valid and the angles in range, as \<open>resetServos\<close> does. The clamp is idempotent at
  the bounds: an increase at \<open>angleMax\<close> leaves \<open>angleMax\<close>, a decrease at
  \<open>angleMin\<close> leaves \<open>angleMin\<close>.
\<close>

theorem angles_stay_in_range:
  assumes "config_ok s"
    and "\<forall>h t. buttonPressedHandler hs = Some h \<longrightarrow> limits_inv t \<longrightarrow> limits_inv (h t)"
  shows
    "angles_in_range (run hs js (init s)) \<and>
     (angles_in_range s \<longrightarrow> angles_in_range (run hs js s) \<and> config_ok (run hs js s)) \<and>
     (0 < servoStep u \<and> xAngle u = servoMaxAngle u \<and>
      xMaxThresholdMin u < xValue j \<and> xValue j \<le> xMaxThresholdMax u \<longrightarrow>
        xAngle (axisDecision j u) = servoMaxAngle u) \<and>
     (0 < servoStep u \<and> xAngle u = servoMinAngle u \<and>
      \<not> (xMaxThresholdMin u < xValue j \<and> xValue j \<le> xMaxThresholdMax u) \<and>
      xValue j < xMinThreshold u \<longrightarrow>
        xAngle (axisDecision j u) = servoMinAngle u) \<and>
     (0 < servoStep u \<and> yAngle u = servoMaxAngle u \<and>
      yMaxThresholdMin u < yValue j \<and> yValue j \<le> yMaxThresholdMax u \<longrightarrow>
        yAngle (axisDecision j u) = servoMaxAngle u) \<and>
     (0 < servoStep u \<and> yAngle u = servoMinAngle u \<and>
      \<not> (yMaxThresholdMin u < yValue j \<and> yValue j \<le> yMaxThresholdMax u) \<and>
      yValue j < yMinThreshold u \<longrightarrow>
        yAngle (axisDecision j u) = servoMinAngle u)"
proof -
  note keeps = run_limits_inv [OF assms(2)]
  from assms(1) have "limits_inv (init s)"
    by (rule init_limits_inv)
  then have after_init: "angles_in_range (run hs js (init s))"
    using keeps by (simp add: limits_inv_def)
  have anywhere: "angles_in_range (run hs js s) \<and> config_ok (run hs js s)"
    if "angles_in_range s"
  proof -
    from assms(1) that have "limits_inv s"
      by (simp add: limits_inv_def)
    then have "limits_inv (run hs js s)"
      by (rule keeps)
    then show ?thesis
      by (simp add: limits_inv_def)
  qed
  from after_init anywhere show ?thesis
    by (simp add: axisDecision_xAngle axisDecision_yAngle)
qed

theorem angles_stay_in_range_witness:
  "config_ok initial_state \<and> angles_in_range initial_state \<and>
   angles_in_range
     (run (onButtonPressed (resetServos no_handlers) no_handlers)
        [\<lparr>currentTime = 200, xValue = 770, yValue = 100, buttonState = 1\<rparr>,
         \<lparr>currentTime = 400, xValue = 770, yValue = 100, buttonState = 0\<rparr>]
        (init initial_state)) \<and>
   angles_in_range
     (run (onButtonPressed (resetServos no_handlers) no_handlers)
        [\<lparr>currentTime = 200, xValue = 770, yValue = 100, buttonState = 1\<rparr>,
         \<lparr>currentTime = 400, xValue = 770, yValue = 100, buttonState = 0\<rparr>]
        initial_state) \<and>
   xAngle (axisDecision \<lparr>currentTime = 200, xValue = 770, yValue = 770, buttonState = 1\<rparr>
     (initial_state\<lparr>xAngle := 180, yAngle := 180\<rparr>)) = 180 \<and>
   yAngle (axisDecision \<lparr>currentTime = 200, xValue = 770, yValue = 770, buttonState = 1\<rparr>
     (initial_state\<lparr>xAngle := 180, yAngle := 180\<rparr>)) = 180 \<and>
   xAngle (axisDecision \<lparr>currentTime = 200, xValue = 100, yValue = 100, buttonState = 1\<rparr>
     (initial_state\<lparr>xAngle := 0, yAngle := 0\<rparr>)) = 0 \<and>
   yAngle (axisDecision \<lparr>currentTime = 200, xValue = 100, yValue = 100, buttonState = 1\<rparr>
     (initial_state\<lparr>xAngle := 0, yAngle := 0\<rparr>)) = 0"
proof -
  have c: "config_ok initial_state" and a: "angles_in_range initial_state"
    by (simp_all add: config_ok_def angles_in_range_def initial_state_def)
  have h: "\<forall>h t. buttonPressedHandler (onButtonPressed (resetServos no_handlers) no_handlers)
              = Some h \<longrightarrow> limits_inv t \<longrightarrow> limits_inv (h t)"
    by (simp add: onButtonPressed_def resetServos_limits_inv)
  show ?thesis
    using c a
      angles_stay_in_range [OF c h, of
        "[\<lparr>currentTime = 200, xValue = 770, yValue = 100, buttonState = 1\<rparr>,
          \<lparr>currentTime = 400, xValue = 770, yValue = 100, buttonState = 0\<rparr>]"
        "initial_state\<lparr>xAngle := 180, yAngle := 180\<rparr>"
        "\<lparr>currentTime = 200, xValue = 770, yValue = 770, buttonState = 1\<rparr>"]
      angles_stay_in_range [OF c h, of "[]"
        "initial_state\<lparr>xAngle := 0, yAngle := 0\<rparr>"
        "\<lparr>currentTime = 200, xValue = 100, yValue = 100, buttonState = 1\<rparr>"]
    by (simp add: initial_state_def)
qed

text \<open>
  C3, as amended. In every pass of \<open>moveServos\<close>, for each axis independently, the
  servo updates (lines 288-305) issue a write if and only if
  \<open>currentAngle != lastCommandedAngle\<close>, the comparison of the language, which holds
  whenever the current angle is \<open>NaN\<close>; the write is of the current angle, and after
  the updates the last commanded angle is the current angle. When neither current
  angle is \<open>NaN\<close>, a second pass right after the first issues nothing, so two
  consecutive passes with the same angles issue the one write of the first pass, or
  none if the angle was the commanded one already.
\<close>

theorem servo_write_on_change:
  "servoWrites X (issued s (moveServoY_num (moveServoX_num s))) =
     (if ne (xAngle s) (lastXAngle s) then [xAngle s] else []) \<and>
   servoWrites Y (issued s (moveServoY_num (moveServoX_num s))) =
     (if ne (yAngle s) (lastYAngle s) then [yAngle s] else []) \<and>
   lastXAngle (moveServoY_num (moveServoX_num s)) = xAngle s \<and>
   lastYAngle (moveServoY_num (moveServoX_num s)) = yAngle s \<and>
   xAngle (moveServoY_num (moveServoX_num s)) = xAngle s \<and>
   yAngle (moveServoY_num (moveServoX_num s)) = yAngle s \<and>
   (angleChangedHandler hs = None \<longrightarrow>
      moveServos_num hs s = moveServoY_num (moveServoX_num s)) \<and>
   (xAngle s \<noteq> NaN \<and> yAngle s \<noteq> NaN \<longrightarrow>
      moveServos_num hs s = moveServoY_num (moveServoX_num s) \<and>
      issued (moveServos_num hs s) (moveServos_num hs (moveServos_num hs s)) = [] \<and>
      servoWrites X (issued s (moveServos_num hs (moveServos_num hs s))) =
        (if ne (xAngle s) (lastXAngle s) then [xAngle s] else []) \<and>
      servoWrites Y (issued s (moveServos_num hs (moveServos_num hs s))) =
        (if ne (yAngle s) (lastYAngle s) then [yAngle s] else []))"
proof -
  let ?t = "moveServoY_num (moveServoX_num s)"
  have x: "servoWrites X (issued s ?t) = (if ne (xAngle s) (lastXAngle s) then [xAngle s] else [])"
    by (simp add: issued_moveServoXY_num)
  have y: "servoWrites Y (issued s ?t) = (if ne (yAngle s) (lastYAngle s) then [yAngle s] else [])"
    by (simp add: issued_moveServoXY_num)
  have twice: "moveServos_num hs s = ?t \<and>
      issued (moveServos_num hs s) (moveServos_num hs (moveServos_num hs s)) = [] \<and>
      servoWrites X (issued s (moveServos_num hs (moveServos_num hs s))) =
        (if ne (xAngle s) (lastXAngle s) then [xAngle s] else []) \<and>
      servoWrites Y (issued s (moveServos_num hs (moveServos_num hs s))) =
        (if ne (yAngle s) (lastYAngle s) then [yAngle s] else [])"
    if "xAngle s \<noteq> NaN \<and> yAngle s \<noteq> NaN"
  proof -
    from that have first: "moveServos_num hs s = ?t"
      by (simp add: moveServos_num_plain)
    from that have "moveServos_num hs ?t = moveServoY_num (moveServoX_num ?t)"
      by (intro moveServos_num_plain) simp_all
    with that have second: "moveServos_num hs ?t = ?t"
      by (simp add: moveServoXY_num_idem)
    show ?thesis
      unfolding first second using x y by (simp add: issued_def)
  qed
  have last: "lastXAngle ?t = xAngle s" "lastYAngle ?t = yAngle s"
    and cur: "xAngle ?t = xAngle s" "yAngle ?t = yAngle s"
    by simp_all
  have unregistered: "moveServos_num hs s = ?t" if "angleChangedHandler hs = None"
    using that by (rule moveServos_num_unregistered)
  from x y last cur unregistered twice show ?thesis
    by blast
qed

theorem servo_write_on_change_witness:
  "servoWrites X (issued (initial_state_num\<lparr>xAngle := Fin 120\<rparr>)
     (moveServos_num no_handlers (initial_state_num\<lparr>xAngle := Fin 120\<rparr>))) = [Fin 120] \<and>
   servoWrites Y (issued (initial_state_num\<lparr>xAngle := Fin 120\<rparr>)
     (moveServos_num no_handlers (initial_state_num\<lparr>xAngle := Fin 120\<rparr>))) = [] \<and>
   servoWrites X (issued (initial_state_num\<lparr>xAngle := Fin 120\<rparr>)
     (moveServos_num no_handlers
        (moveServos_num no_handlers (initial_state_num\<lparr>xAngle := Fin 120\<rparr>)))) = [Fin 120]"
proof -
  let ?s = "initial_state_num\<lparr>xAngle := Fin 120\<rparr>"
  have numbers: "xAngle ?s \<noteq> NaN \<and> yAngle ?s \<noteq> NaN"
    by (simp add: initial_state_num_def)
  note all = servo_write_on_change [of ?s no_handlers]
  note two = all [THEN conjunct2, THEN conjunct2, THEN conjunct2, THEN conjunct2,
      THEN conjunct2, THEN conjunct2, THEN conjunct2, THEN mp, OF numbers]
  note pass = two [THEN conjunct1]
  have x: "servoWrites X (issued ?s (moveServos_num no_handlers ?s)) = [Fin 120]"
    unfolding pass all [THEN conjunct1] by (simp add: initial_state_num_def)
  have y: "servoWrites Y (issued ?s (moveServos_num no_handlers ?s)) = []"
    unfolding pass all [THEN conjunct2, THEN conjunct1] by (simp add: initial_state_num_def)
  have xx: "servoWrites X
      (issued ?s (moveServos_num no_handlers (moveServos_num no_handlers ?s))) = [Fin 120]"
    unfolding two [THEN conjunct2, THEN conjunct2, THEN conjunct1]
    by (simp add: initial_state_num_def)
  show ?thesis
    by (intro conjI) (rule x, rule y, rule xx)
qed

text \<open>
  C3 as the specification states it has two consecutive passes with identical angles
  issue exactly one write. \<open>setServoAngles(NaN, 90)\<close> stores \<open>NaN\<close> as the X angle
  (and writes it); each of two further passes, the angles being the same, finds
  \<open>NaN != NaN\<close> and writes again.
\<close>

theorem servo_write_repeated_counterexample:
  "xAngle (setServoAngles_num no_handlers NaN (Fin 90) initial_state_num) = NaN \<and>
   yAngle (setServoAngles_num no_handlers NaN (Fin 90) initial_state_num) = Fin 90 \<and>
   xAngle (moveServos_num no_handlers
      (setServoAngles_num no_handlers NaN (Fin 90) initial_state_num)) = NaN \<and>
   yAngle (moveServos_num no_handlers
      (setServoAngles_num no_handlers NaN (Fin 90) initial_state_num)) = Fin 90 \<and>
   servoWrites X
     (issued (setServoAngles_num no_handlers NaN (Fin 90) initial_state_num)
        (moveServos_num no_handlers
           (moveServos_num no_handlers
              (setServoAngles_num no_handlers NaN (Fin 90) initial_state_num))))
     = [NaN, NaN]"
  by (simp add: setServoAngles_num_def moveServos_num_unregistered no_handlers_def
      issued_def moveServoX_num_trace moveServoY_num_trace initial_state_num_def
      constrain_num_def gt_def)

text \<open>
  C4, as amended. The guard of the angle-change callback (line 308) is evaluated
  after both \<open>_lastXAngle\<close> and \<open>_lastYAngle\<close> have been set to the current angles,
  so it holds exactly when a current angle is \<open>NaN\<close>. In every state whose two
  current angles are not \<open>NaN\<close>, \<open>moveServos\<close> never enters the registered callback
  and its result does not depend on which one is registered; with a \<open>NaN\<close> angle it
  enters the callback on every pass.
\<close>

theorem angle_callback_only_for_nan:
  "(ne (xAngle (moveServoY_num (moveServoX_num s)))
       (lastXAngle (moveServoY_num (moveServoX_num s))) \<or>
    ne (yAngle (moveServoY_num (moveServoX_num s)))
       (lastYAngle (moveServoY_num (moveServoX_num s)))
    \<longleftrightarrow> xAngle s = NaN \<or> yAngle s = NaN) \<and>
   (xAngle s \<noteq> NaN \<and> yAngle s \<noteq> NaN \<longrightarrow>
      moveServos_num hs s = moveServoY_num (moveServoX_num s) \<and>
      moveServos_num (onAngleChanged h hs) s = moveServos_num hs s \<and>
      filter isAngleChangedCall (issued s (moveServos_num (onAngleChanged h hs) s)) = []) \<and>
   (xAngle s = NaN \<or> yAngle s = NaN \<longrightarrow>
      moveServos_num (onAngleChanged h hs) s =
        h (xAngle s) (yAngle s)
          (emit (AngleChangedCall (xAngle s) (yAngle s)) (moveServoY_num (moveServoX_num s))))"
proof -
  have quiet: "moveServos_num hs s = moveServoY_num (moveServoX_num s) \<and>
      moveServos_num (onAngleChanged h hs) s = moveServos_num hs s \<and>
      filter isAngleChangedCall (issued s (moveServos_num (onAngleChanged h hs) s)) = []"
    if "xAngle s \<noteq> NaN \<and> yAngle s \<noteq> NaN"
    using that by (simp add: moveServos_num_plain issued_moveServoXY_num)
  have called: "moveServos_num (onAngleChanged h hs) s =
      h (xAngle s) (yAngle s)
        (emit (AngleChangedCall (xAngle s) (yAngle s)) (moveServoY_num (moveServoX_num s)))"
    if "xAngle s = NaN \<or> yAngle s = NaN"
    using that by (intro moveServos_num_called) (simp_all add: onAngleChanged_def)
  from guard_after_updates [of s] quiet called show ?thesis
    by blast
qed

theorem angle_callback_only_for_nan_witness:
  "moveServos_num (onAngleChanged showAngles no_handlers)
     (initial_state_num\<lparr>xAngle := Fin 120\<rparr>)
     = moveServos_num no_handlers (initial_state_num\<lparr>xAngle := Fin 120\<rparr>) \<and>
   filter isAngleChangedCall (issued (initial_state_num\<lparr>xAngle := Fin 120\<rparr>)
     (moveServos_num (onAngleChanged showAngles no_handlers)
        (initial_state_num\<lparr>xAngle := Fin 120\<rparr>))) = [] \<and>
   issued (initial_state_num\<lparr>xAngle := NaN\<rparr>)
     (moveServos_num (onAngleChanged showAngles no_handlers)
        (initial_state_num\<lparr>xAngle := NaN\<rparr>))
     = [ServoWrite X NaN, AngleChangedCall NaN (Fin 90),
        SerialAngle X NaN, SerialAngle Y (Fin 90)]"
proof -
  have a: "xAngle (initial_state_num\<lparr>xAngle := Fin 120\<rparr>) \<noteq> NaN \<and>
      yAngle (initial_state_num\<lparr>xAngle := Fin 120\<rparr>) \<noteq> NaN"
    by (simp add: initial_state_num_def)
  have b: "xAngle (initial_state_num\<lparr>xAngle := NaN\<rparr>) = NaN \<or>
      yAngle (initial_state_num\<lparr>xAngle := NaN\<rparr>) = NaN"
    by simp
  note plain = angle_callback_only_for_nan [where s = "initial_state_num\<lparr>xAngle := Fin 120\<rparr>"
      and h = showAngles and hs = no_handlers, THEN conjunct2, THEN conjunct1, THEN mp, OF a]
  note nan = angle_callback_only_for_nan [where s = "initial_state_num\<lparr>xAngle := NaN\<rparr>"
      and h = showAngles and hs = no_handlers, THEN conjunct2, THEN conjunct2, THEN mp, OF b]
  have "issued (initial_state_num\<lparr>xAngle := NaN\<rparr>)
     (moveServos_num (onAngleChanged showAngles no_handlers)
        (initial_state_num\<lparr>xAngle := NaN\<rparr>))
     = [ServoWrite X NaN, AngleChangedCall NaN (Fin 90),
        SerialAngle X NaN, SerialAngle Y (Fin 90)]"
    unfolding nan
    by (simp add: issued_def showAngles_def moveServoX_num_trace moveServoY_num_trace
        initial_state_num_def)
  then show ?thesis
    by (intro conjI) (rule plain [THEN conjunct2, THEN conjunct1],
      rule plain [THEN conjunct2, THEN conjunct2])
qed

text \<open>
  C4 as the specification states it has the callback never invoked in any reachable
  state. With the callback of README.md registered, \<open>setServoAngles(NaN, 90)\<close> on
  the initial state stores \<open>NaN\<close>, and the pass it runs enters the callback.
\<close>

theorem angle_callback_invoked_counterexample:
  "issued initial_state_num
     (setServoAngles_num (onAngleChanged showAngles no_handlers) NaN (Fin 90) initial_state_num)
     = [ServoWrite X NaN, AngleChangedCall NaN (Fin 90),
        SerialAngle X NaN, SerialAngle Y (Fin 90)] \<and>
   filter isAngleChangedCall
     (issued initial_state_num
        (setServoAngles_num (onAngleChanged showAngles no_handlers) NaN (Fin 90)
           initial_state_num))
     = [AngleChangedCall NaN (Fin 90)]"
proof -
  let ?s = "initial_state_num\<lparr>xAngle := NaN, yAngle := Fin 90\<rparr>"
  have stored: "setServoAngles_num (onAngleChanged showAngles no_handlers) NaN (Fin 90)
      initial_state_num = moveServos_num (onAngleChanged showAngles no_handlers) ?s"
    by (simp add: setServoAngles_num_def constrain_num_def gt_def initial_state_num_def)
  have called: "moveServos_num (onAngleChanged showAngles no_handlers) ?s =
      showAngles (xAngle ?s) (yAngle ?s)
        (emit (AngleChangedCall (xAngle ?s) (yAngle ?s)) (moveServoY_num (moveServoX_num ?s)))"
    by (intro moveServos_num_called) (simp_all add: onAngleChanged_def)
  have "trace (moveServos_num (onAngleChanged showAngles no_handlers) ?s) =
      [ServoWrite X NaN, AngleChangedCall NaN (Fin 90),
       SerialAngle X NaN, SerialAngle Y (Fin 90)]"
    unfolding called
    by (simp add: showAngles_def moveServoX_num_trace moveServoY_num_trace
        initial_state_num_def)
  then show ?thesis
    unfolding stored by (simp add: issued_def initial_state_num_def)
qed

text \<open>
  C5. On every gated pass in which the button reads pressed (digital read 0), the
  button callback is entered if one is registered; if none is, both angles are set
  to \<open>angleInit\<close>. Nothing in the condition remembers the previous level: the pass
  sets \<open>lastActionTime\<close> to its own time, and a second gated pass with the button
  still pressed does the same again.
\<close>

theorem button_pressed_every_gated_pass:
  assumes "currentTime i - lastActionTime s > 100" and "buttonState i = 0"
  shows
    "(buttonPressedHandler hs = None \<longrightarrow>
        xAngle (loopBody hs i s) = servoInitAngle s \<and>
        yAngle (loopBody hs i s) = servoInitAngle s) \<and>
     (\<forall>h. buttonPressedHandler hs = Some h \<longrightarrow>
        loopBody hs i s =
          emit (Pause 50)
            (moveServos hs
               ((debug SerialButtonPressed
                   ((h (emit ButtonPressedCall (axisDecision i (debugReadings i s))))
                      \<lparr>updated := True\<rparr>))
                \<lparr>lastActionTime := currentTime i\<rparr>))) \<and>
     lastActionTime (loopBody hs i s) = currentTime i \<and>
     (buttonPressedHandler hs = None \<and> buttonState i' = 0 \<and>
      currentTime i' - currentTime i > 100 \<longrightarrow>
        xAngle (run hs [i, i'] s) = servoInitAngle s \<and>
        yAngle (run hs [i, i'] s) = servoInitAngle s) \<and>
     (\<forall>h. buttonPressedHandler hs = Some h \<and> buttonState i' = 0 \<and>
      currentTime i' - currentTime i > 100 \<longrightarrow>
        run hs [i, i'] s =
          emit (Pause 50)
            (moveServos hs
               ((debug SerialButtonPressed
                   ((h (emit ButtonPressedCall
                          (axisDecision i' (debugReadings i' (loopBody hs i s)))))
                      \<lparr>updated := True\<rparr>))
                \<lparr>lastActionTime := currentTime i'\<rparr>)))"
proof -
  have default: "xAngle (loopBody hs j t) = servoInitAngle t \<and>
      yAngle (loopBody hs j t) = servoInitAngle t \<and>
      servoInitAngle (loopBody hs j t) = servoInitAngle t"
    if "currentTime j - lastActionTime t > 100" "buttonState j = 0"
      "buttonPressedHandler hs = None" for j t
    by (simp add: loopBody_pressed_default [OF that])
  have time: "lastActionTime (loopBody hs i s) = currentTime i"
  proof (cases "buttonPressedHandler hs")
    case None
    show ?thesis
      by (simp add: loopBody_pressed_default [OF assms None])
  next
    case (Some h)
    show ?thesis
      by (simp add: loopBody_pressed_handler [OF assms Some])
  qed
  have twice: "xAngle (run hs [i, i'] s) = servoInitAngle s \<and>
      yAngle (run hs [i, i'] s) = servoInitAngle s"
    if none: "buttonPressedHandler hs = None" and held: "buttonState i' = 0"
      and gate: "currentTime i' - currentTime i > 100"
  proof -
    from gate have "currentTime i' - lastActionTime (loopBody hs i s) > 100"
      by (simp add: time)
    from default [OF this held none] default [OF assms none] show ?thesis
      by simp
  qed
  have twice_handler: "run hs [i, i'] s =
      emit (Pause 50)
        (moveServos hs
           ((debug SerialButtonPressed
               ((h (emit ButtonPressedCall
                      (axisDecision i' (debugReadings i' (loopBody hs i s)))))
                  \<lparr>updated := True\<rparr>))
            \<lparr>lastActionTime := currentTime i'\<rparr>))"
    if some: "buttonPressedHandler hs = Some h" and held: "buttonState i' = 0"
      and gate: "currentTime i' - currentTime i > 100" for h
  proof -
    from gate have "currentTime i' - lastActionTime (loopBody hs i s) > 100"
      by (simp add: time)
    from loopBody_pressed_handler [OF this held some] show ?thesis
      by simp
  qed
  show ?thesis
    using default [OF assms] loopBody_pressed_handler [OF assms] time twice twice_handler
    by blast
qed

theorem button_pressed_every_gated_pass_witness:
  "xAngle (loopBody no_handlers
      \<lparr>currentTime = 200, xValue = 770, yValue = 100, buttonState = 0\<rparr>
      (initial_state\<lparr>xAngle := 30, yAngle := 150\<rparr>)) = 90 \<and>
   yAngle (loopBody no_handlers
      \<lparr>currentTime = 200, xValue = 770, yValue = 100, buttonState = 0\<rparr>
      (initial_state\<lparr>xAngle := 30, yAngle := 150\<rparr>)) = 90 \<and>
   xAngle (run no_handlers
      [\<lparr>currentTime = 200, xValue = 770, yValue = 100, buttonState = 0\<rparr>,
       \<lparr>currentTime = 400, xValue = 770, yValue = 100, buttonState = 0\<rparr>]
      (initial_state\<lparr>xAngle := 30, yAngle := 150\<rparr>)) = 90 \<and>
   lastActionTime (loopBody (onButtonPressed (setDebugMode True) no_handlers)
      \<lparr>currentTime = 200, xValue = 770, yValue = 100, buttonState = 0\<rparr>
      (initial_state\<lparr>xAngle := 30, yAngle := 150\<rparr>)) = 200"
  using
    button_pressed_every_gated_pass [of
      "\<lparr>currentTime = 200, xValue = 770, yValue = 100, buttonState = 0\<rparr>"
      "initial_state\<lparr>xAngle := 30, yAngle := 150\<rparr>" no_handlers
      "\<lparr>currentTime = 400, xValue = 770, yValue = 100, buttonState = 0\<rparr>"]
    button_pressed_every_gated_pass [of
      "\<lparr>currentTime = 200, xValue = 770, yValue = 100, buttonState = 0\<rparr>"
      "initial_state\<lparr>xAngle := 30, yAngle := 150\<rparr>"
      "onButtonPressed (setDebugMode True) no_handlers"
      "\<lparr>currentTime = 400, xValue = 770, yValue = 100, buttonState = 0\<rparr>"]
  by (simp add: initial_state_def no_handlers_def)

text \<open>
  C6. \<open>setServoLimits min max init step\<close> overwrites the four configuration fields
  and sets both current angles to \<open>init\<close> at once. It writes to no servo itself and
  leaves the last commanded angles alone, so the next actuation pass writes \<open>init\<close>
  to each axis whose last commanded angle differs from it.
\<close>

theorem setServoLimits_recenters:
  "servoMinAngle (setServoLimits mn mx ini st s) = mn \<and>
   servoMaxAngle (setServoLimits mn mx ini st s) = mx \<and>
   servoInitAngle (setServoLimits mn mx ini st s) = ini \<and>
   servoStep (setServoLimits mn mx ini st s) = st \<and>
   getXAngle (setServoLimits mn mx ini st s) = ini \<and>
   getYAngle (setServoLimits mn mx ini st s) = ini \<and>
   lastXAngle (setServoLimits mn mx ini st s) = lastXAngle s \<and>
   lastYAngle (setServoLimits mn mx ini st s) = lastYAngle s \<and>
   servoWrites X (issued s (setServoLimits mn mx ini st s)) = [] \<and>
   servoWrites Y (issued s (setServoLimits mn mx ini st s)) = [] \<and>
   servoWrites X (issued (setServoLimits mn mx ini st s)
      (moveServos hs (setServoLimits mn mx ini st s))) =
     (if ini \<noteq> lastXAngle s then [ini] else []) \<and>
   servoWrites Y (issued (setServoLimits mn mx ini st s)
      (moveServos hs (setServoLimits mn mx ini st s))) =
     (if ini \<noteq> lastYAngle s then [ini] else [])"
proof -
  have own: "issued s (setServoLimits mn mx ini st s) =
      (if debugMode s then [SerialLimitsUpdated mn mx ini st] else [])"
    by (rule issued_append) (simp add: setServoLimits_def)
  show ?thesis
    by (simp add: setServoLimits_fields own issued_moveServos getXAngle_def getYAngle_def)
qed

theorem setServoLimits_recenters_witness:
  "getXAngle (setServoLimits 10 170 45 5 initial_state) = 45 \<and>
   getYAngle (setServoLimits 10 170 45 5 initial_state) = 45 \<and>
   servoWrites X (issued (setServoLimits 10 170 45 5 initial_state)
      (moveServos no_handlers (setServoLimits 10 170 45 5 initial_state))) = [45] \<and>
   servoWrites Y (issued (setServoLimits 10 170 45 5 initial_state)
      (moveServos no_handlers (setServoLimits 10 170 45 5 initial_state))) = [45]"
  using setServoLimits_recenters [of 10 170 45 5 initial_state no_handlers]
  by (simp add: initial_state_def)

text \<open>
  C7, as amended. The body of the gate runs only when
  \<open>now - lastActionTime > 100\<close>. When the gate is closed the pass changes nothing
  but the trace, to which it appends the raw readings (if debugging) and the idle
  pause: no angle changes, no servo write, no callback. On a gated pass
  \<open>lastActionTime\<close> becomes \<open>now\<close> exactly when an axis took its increase or
  decrease branch (its reading was in the increase band or below \<open>minThreshold\<close>,
  whether or not the clamped angle changed) or the button read pressed; otherwise the
  pass does not actuate and \<open>lastActionTime\<close> stays.
\<close>

theorem gate_and_action_timestamp:
  "(\<not> currentTime i - lastActionTime s > 100 \<longrightarrow>
      loopBody hs i s =
        s\<lparr>trace := trace s @
            (if debugMode s
             then [SerialValue X (xValue i), SerialValue Y (yValue i),
                   SerialButtonValue (if buttonState i = 0 then 1 else 0)]
             else []) @ [Pause 50]\<rparr>) \<and>
   (currentTime i - lastActionTime s > 100 \<longrightarrow>
      lastActionTime (loopBody hs i s) =
        (if xMaxThresholdMin s < xValue i \<and> xValue i \<le> xMaxThresholdMax s \<or>
            xValue i < xMinThreshold s \<or>
            yMaxThresholdMin s < yValue i \<and> yValue i \<le> yMaxThresholdMax s \<or>
            yValue i < yMinThreshold s \<or>
            buttonState i = 0
         then currentTime i else lastActionTime s)) \<and>
   (currentTime i - lastActionTime s > 100 \<and>
    \<not> (xMaxThresholdMin s < xValue i \<and> xValue i \<le> xMaxThresholdMax s) \<and>
    \<not> xValue i < xMinThreshold s \<and>
    \<not> (yMaxThresholdMin s < yValue i \<and> yValue i \<le> yMaxThresholdMax s) \<and>
    \<not> yValue i < yMinThreshold s \<and>
    buttonState i \<noteq> 0 \<longrightarrow>
      loopBody hs i s = emit (Pause 50) ((debugReadings i s)\<lparr>updated := False\<rparr>))"
proof -
  have pressed: "lastActionTime (loopBody hs i s) = currentTime i"
    if "currentTime i - lastActionTime s > 100" "buttonState i = 0"
  proof (cases "buttonPressedHandler hs")
    case None
    show ?thesis
      by (simp add: loopBody_pressed_default [OF that None])
  next
    case (Some h)
    show ?thesis
      by (simp add: loopBody_pressed_handler [OF that Some])
  qed
  have stamp: "lastActionTime (loopBody hs i s) =
      (if xMaxThresholdMin s < xValue i \<and> xValue i \<le> xMaxThresholdMax s \<or>
          xValue i < xMinThreshold s \<or>
          yMaxThresholdMin s < yValue i \<and> yValue i \<le> yMaxThresholdMax s \<or>
          yValue i < yMinThreshold s \<or>
          buttonState i = 0
       then currentTime i else lastActionTime s)"
    if gate: "currentTime i - lastActionTime s > 100"
  proof (cases "buttonState i = 0")
    case True
    with pressed [OF gate] show ?thesis
      by simp
  next
    case False
    with loopBody_released_lastActionTime [OF gate False, of hs] show ?thesis
      by simp
  qed
  show ?thesis
  proof (intro conjI impI)
    assume "\<not> currentTime i - lastActionTime s > 100"
    then show "loopBody hs i s =
        s\<lparr>trace := trace s @
            (if debugMode s
             then [SerialValue X (xValue i), SerialValue Y (yValue i),
                   SerialButtonValue (if buttonState i = 0 then 1 else 0)]
             else []) @ [Pause 50]\<rparr>"
      by (rule loopBody_closed_state)
  next
    assume "currentTime i - lastActionTime s > 100"
    then show "lastActionTime (loopBody hs i s) =
        (if xMaxThresholdMin s < xValue i \<and> xValue i \<le> xMaxThresholdMax s \<or>
            xValue i < xMinThreshold s \<or>
            yMaxThresholdMin s < yValue i \<and> yValue i \<le> yMaxThresholdMax s \<or>
            yValue i < yMinThreshold s \<or>
            buttonState i = 0
         then currentTime i else lastActionTime s)"
      by (rule stamp)
  next
    assume "currentTime i - lastActionTime s > 100 \<and>
      \<not> (xMaxThresholdMin s < xValue i \<and> xValue i \<le> xMaxThresholdMax s) \<and>
      \<not> xValue i < xMinThreshold s \<and>
      \<not> (yMaxThresholdMin s < yValue i \<and> yValue i \<le> yMaxThresholdMax s) \<and>
      \<not> yValue i < yMinThreshold s \<and>
      buttonState i \<noteq> 0"
    then show "loopBody hs i s = emit (Pause 50) ((debugReadings i s)\<lparr>updated := False\<rparr>)"
      by (intro loopBody_idle) (elim conjE, assumption)+
  qed
qed

theorem gate_and_action_timestamp_witness:
  "loopBody no_handlers \<lparr>currentTime = 100, xValue = 770, yValue = 100, buttonState = 0\<rparr>
     initial_state = initial_state\<lparr>trace := [Pause 50]\<rparr> \<and>
   lastActionTime (loopBody no_handlers
     \<lparr>currentTime = 101, xValue = 770, yValue = 500, buttonState = 1\<rparr> initial_state) = 101 \<and>
   lastActionTime (loopBody no_handlers
     \<lparr>currentTime = 101, xValue = 500, yValue = 500, buttonState = 1\<rparr> initial_state) = 0 \<and>
   loopBody no_handlers
     \<lparr>currentTime = 101, xValue = 500, yValue = 500, buttonState = 1\<rparr> initial_state
     = initial_state\<lparr>trace := [Pause 50]\<rparr>"
  using
    gate_and_action_timestamp [of
      "\<lparr>currentTime = 100, xValue = 770, yValue = 100, buttonState = 0\<rparr>"
      initial_state no_handlers]
    gate_and_action_timestamp [of
      "\<lparr>currentTime = 101, xValue = 770, yValue = 500, buttonState = 1\<rparr>"
      initial_state no_handlers]
    gate_and_action_timestamp [of
      "\<lparr>currentTime = 101, xValue = 500, yValue = 500, buttonState = 1\<rparr>"
      initial_state no_handlers]
  by (simp add: initial_state_def emit_def debugReadings_def)

text \<open>
  C7 as the specification states it has \<open>lastActionTime\<close> updated exactly when some
  axis changed or the button fired. With the X angle clamped at \<open>angleMax = 180\<close>,
  a reading in the increase band and the button up, neither angle changes, and the
  pass still sets \<open>lastActionTime\<close> to its time.
\<close>

theorem action_timestamp_without_change_counterexample:
  "currentTime \<lparr>currentTime = 200, xValue = 770, yValue = 500, buttonState = 1\<rparr>
     - lastActionTime (setServoAngles no_handlers 180 90 initial_state) > 100 \<and>
   buttonState \<lparr>currentTime = 200, xValue = 770, yValue = 500, buttonState = 1\<rparr> \<noteq> 0 \<and>
   xAngle (loopBody no_handlers
      \<lparr>currentTime = 200, xValue = 770, yValue = 500, buttonState = 1\<rparr>
      (setServoAngles no_handlers 180 90 initial_state))
     = xAngle (setServoAngles no_handlers 180 90 initial_state) \<and>
   yAngle (loopBody no_handlers
      \<lparr>currentTime = 200, xValue = 770, yValue = 500, buttonState = 1\<rparr>
      (setServoAngles no_handlers 180 90 initial_state))
     = yAngle (setServoAngles no_handlers 180 90 initial_state) \<and>
   lastActionTime (setServoAngles no_handlers 180 90 initial_state) = 0 \<and>
   lastActionTime (loopBody no_handlers
      \<lparr>currentTime = 200, xValue = 770, yValue = 500, buttonState = 1\<rparr>
      (setServoAngles no_handlers 180 90 initial_state)) = 200"
proof -
  have s: "lastActionTime (setServoAngles no_handlers 180 90 initial_state) = 0"
    "xAngle (setServoAngles no_handlers 180 90 initial_state) = 180"
    "yAngle (setServoAngles no_handlers 180 90 initial_state) = 90"
    "servoStep (setServoAngles no_handlers 180 90 initial_state) = 15"
    "servoMaxAngle (setServoAngles no_handlers 180 90 initial_state) = 180"
    "xMaxThresholdMin (setServoAngles no_handlers 180 90 initial_state) = 760"
    "xMaxThresholdMax (setServoAngles no_handlers 180 90 initial_state) = 780"
    "yMaxThresholdMin (setServoAngles no_handlers 180 90 initial_state) = 760"
    "yMinThreshold (setServoAngles no_handlers 180 90 initial_state) = 250"
    by (simp_all add: setServoAngles_def constrain_def initial_state_def)
  show ?thesis
    by (simp add: s loopBody_released axisDecision_updated axisDecision_xAngle
        axisDecision_yAngle)
qed

text \<open>
  C8. With \<open>angleMin = 0\<close>, \<open>angleMax = 180\<close>, \<open>step = 15\<close>, X thresholds
  \<open>lowBand = 760\<close>, \<open>highBand = 780\<close>, \<open>minThreshold = 250\<close>, the X angle at 90, the
  button up and the gate open on each pass, the X readings 770, 770, 200 give the
  X angles 105, 120, 105.
\<close>

theorem scenario_770_770_200:
  assumes "servoMinAngle s = 0" and "servoMaxAngle s = 180" and "servoStep s = 15"
    and "xMaxThresholdMin s = 760" and "xMaxThresholdMax s = 780" and "xMinThreshold s = 250"
    and "xAngle s = 90"
    and "xValue i1 = 770" and "xValue i2 = 770" and "xValue i3 = 200"
    and "buttonState i1 \<noteq> 0" and "buttonState i2 \<noteq> 0" and "buttonState i3 \<noteq> 0"
    and "currentTime i1 - lastActionTime s > 100"
    and "currentTime i2 - currentTime i1 > 100"
    and "currentTime i3 - currentTime i2 > 100"
  shows "xAngle (run hs [i1] s) = 105 \<and>
         xAngle (run hs [i1, i2] s) = 120 \<and>
         xAngle (run hs [i1, i2, i3] s) = 105"
proof -
  let ?s1 = "loopBody hs i1 s"
  let ?s2 = "loopBody hs i2 ?s1"
  let ?s3 = "loopBody hs i3 ?s2"
  note f1 = loopBody_released_frame [OF assms(14) assms(11), of hs]
  have x1: "xAngle ?s1 = 105"
    using assms by (simp add: f1 axisDecision_xAngle)
  have t1: "lastActionTime ?s1 = currentTime i1"
    using assms by (simp add: loopBody_released_lastActionTime)
  from assms(15) t1 have g2: "currentTime i2 - lastActionTime ?s1 > 100"
    by simp
  note f2 = loopBody_released_frame [OF g2 assms(12), of hs]
  have x2: "xAngle ?s2 = 120"
    using assms x1 by (simp add: f2 f1 axisDecision_xAngle)
  have t2: "lastActionTime ?s2 = currentTime i2"
    using assms g2 by (simp add: loopBody_released_lastActionTime f1)
  from assms(16) t2 have g3: "currentTime i3 - lastActionTime ?s2 > 100"
    by simp
  note f3 = loopBody_released_frame [OF g3 assms(13), of hs]
  have x3: "xAngle ?s3 = 105"
    using assms x2 by (simp add: f3 f2 f1 axisDecision_xAngle)
  from x1 x2 x3 show ?thesis
    by simp
qed

theorem scenario_770_770_200_witness:
  "xAngle (run no_handlers
      [\<lparr>currentTime = 200, xValue = 770, yValue = 500, buttonState = 1\<rparr>] initial_state) = 105 \<and>
   xAngle (run no_handlers
      [\<lparr>currentTime = 200, xValue = 770, yValue = 500, buttonState = 1\<rparr>,
       \<lparr>currentTime = 400, xValue = 770, yValue = 500, buttonState = 1\<rparr>] initial_state) = 120 \<and>
   xAngle (run no_handlers
      [\<lparr>currentTime = 200, xValue = 770, yValue = 500, buttonState = 1\<rparr>,
       \<lparr>currentTime = 400, xValue = 770, yValue = 500, buttonState = 1\<rparr>,
       \<lparr>currentTime = 600, xValue = 200, yValue = 500, buttonState = 1\<rparr>] initial_state) = 105"
  by (rule scenario_770_770_200) (simp_all add: initial_state_def)

text \<open>
  C9, as amended. \<open>setServoAngles x y\<close> stores \<open>Math.constrain\<close> of each argument to
  \<open>[angleMin, angleMax]\<close> as the current angle and then actuates. With
  \<open>angleMin \<le> angleMax\<close> and arguments that are not \<open>NaN\<close>, the limits are
  unchanged, the servo is written the constrained value, and the angles that
  \<open>getXAngle\<close> and \<open>getYAngle\<close> return afterwards lie within the limits, however far
  out of range the arguments are. \<open>Math.constrain\<close> returns a \<open>NaN\<close> argument as it
  is.
\<close>

theorem setServoAngles_constrained:
  "(angleChangedHandler hs = None \<longrightarrow>
      getXAngle (setServoAngles_num hs x y s)
        = constrain_num x (servoMinAngle s) (servoMaxAngle s) \<and>
      getYAngle (setServoAngles_num hs x y s)
        = constrain_num y (servoMinAngle s) (servoMaxAngle s)) \<and>
   constrain_num NaN (servoMinAngle s) (servoMaxAngle s) = NaN \<and>
   (x \<noteq> NaN \<and> y \<noteq> NaN \<and> le (servoMinAngle s) (servoMaxAngle s) \<longrightarrow>
      getXAngle (setServoAngles_num hs x y s)
        = constrain_num x (servoMinAngle s) (servoMaxAngle s) \<and>
      getYAngle (setServoAngles_num hs x y s)
        = constrain_num y (servoMinAngle s) (servoMaxAngle s) \<and>
      servoMinAngle (setServoAngles_num hs x y s) = servoMinAngle s \<and>
      servoMaxAngle (setServoAngles_num hs x y s) = servoMaxAngle s \<and>
      le (servoMinAngle s) (getXAngle (setServoAngles_num hs x y s)) \<and>
      le (getXAngle (setServoAngles_num hs x y s)) (servoMaxAngle s) \<and>
      le (servoMinAngle s) (getYAngle (setServoAngles_num hs x y s)) \<and>
      le (getYAngle (setServoAngles_num hs x y s)) (servoMaxAngle s) \<and>
      servoWrites X (issued s (setServoAngles_num hs x y s)) =
        (if ne (constrain_num x (servoMinAngle s) (servoMaxAngle s)) (lastXAngle s)
         then [constrain_num x (servoMinAngle s) (servoMaxAngle s)] else []) \<and>
      servoWrites Y (issued s (setServoAngles_num hs x y s)) =
        (if ne (constrain_num y (servoMinAngle s) (servoMaxAngle s)) (lastYAngle s)
         then [constrain_num y (servoMinAngle s) (servoMaxAngle s)] else []))"
proof -
  let ?cx = "constrain_num x (servoMinAngle s) (servoMaxAngle s)"
  let ?cy = "constrain_num y (servoMinAngle s) (servoMaxAngle s)"
  let ?t = "s\<lparr>xAngle := ?cx, yAngle := ?cy\<rparr>"
  have unregistered: "getXAngle (setServoAngles_num hs x y s) = ?cx \<and>
      getYAngle (setServoAngles_num hs x y s) = ?cy"
    if "angleChangedHandler hs = None"
    using that
    by (simp add: setServoAngles_num_def moveServos_num_unregistered getXAngle_def
        getYAngle_def)
  have ranged: "getXAngle (setServoAngles_num hs x y s) = ?cx \<and>
      getYAngle (setServoAngles_num hs x y s) = ?cy \<and>
      servoMinAngle (setServoAngles_num hs x y s) = servoMinAngle s \<and>
      servoMaxAngle (setServoAngles_num hs x y s) = servoMaxAngle s \<and>
      le (servoMinAngle s) (getXAngle (setServoAngles_num hs x y s)) \<and>
      le (getXAngle (setServoAngles_num hs x y s)) (servoMaxAngle s) \<and>
      le (servoMinAngle s) (getYAngle (setServoAngles_num hs x y s)) \<and>
      le (getYAngle (setServoAngles_num hs x y s)) (servoMaxAngle s) \<and>
      servoWrites X (issued s (setServoAngles_num hs x y s)) =
        (if ne ?cx (lastXAngle s) then [?cx] else []) \<and>
      servoWrites Y (issued s (setServoAngles_num hs x y s)) =
        (if ne ?cy (lastYAngle s) then [?cy] else [])"
    if "x \<noteq> NaN \<and> y \<noteq> NaN \<and> le (servoMinAngle s) (servoMaxAngle s)"
  proof -
    from that have cx: "le (servoMinAngle s) ?cx \<and> le ?cx (servoMaxAngle s) \<and> ?cx \<noteq> NaN"
      by (intro constrain_num_range) simp_all
    from that have cy: "le (servoMinAngle s) ?cy \<and> le ?cy (servoMaxAngle s) \<and> ?cy \<noteq> NaN"
      by (intro constrain_num_range) simp_all
    from cx cy have "moveServos_num hs ?t = moveServoY_num (moveServoX_num ?t)"
      by (intro moveServos_num_plain) simp_all
    then have pass: "setServoAngles_num hs x y s = moveServoY_num (moveServoX_num ?t)"
      by (simp add: setServoAngles_num_def)
    have "trace ?t = trace s"
      by simp
    then have writes: "issued s (moveServoY_num (moveServoX_num ?t))
        = issued ?t (moveServoY_num (moveServoX_num ?t))"
      by (simp add: issued_def)
    have wx: "servoWrites X (issued s (moveServoY_num (moveServoX_num ?t))) =
        (if ne ?cx (lastXAngle s) then [?cx] else [])"
      unfolding writes issued_moveServoXY_num by simp
    have wy: "servoWrites Y (issued s (moveServoY_num (moveServoX_num ?t))) =
        (if ne ?cy (lastYAngle s) then [?cy] else [])"
      unfolding writes issued_moveServoXY_num by simp
    from cx cy wx wy show ?thesis
      unfolding pass getXAngle_def getYAngle_def by simp
  qed
  have nan: "constrain_num NaN (servoMinAngle s) (servoMaxAngle s) = NaN"
    by simp
  from unregistered nan ranged show ?thesis
    by blast
qed

theorem setServoAngles_constrained_witness:
  "le (servoMinAngle initial_state_num) (servoMaxAngle initial_state_num) \<and>
   getXAngle (setServoAngles_num (onAngleChanged showAngles no_handlers)
      (Fin 500) (Fin (- 20)) initial_state_num) = Fin 180 \<and>
   getYAngle (setServoAngles_num (onAngleChanged showAngles no_handlers)
      (Fin 500) (Fin (- 20)) initial_state_num) = Fin 0 \<and>
   getXAngle (setServoAngles_num (onAngleChanged showAngles no_handlers)
      PosInf NegInf initial_state_num) = Fin 180 \<and>
   getYAngle (setServoAngles_num (onAngleChanged showAngles no_handlers)
      PosInf NegInf initial_state_num) = Fin 0 \<and>
   servoWrites X (issued initial_state_num
     (setServoAngles_num (onAngleChanged showAngles no_handlers)
        (Fin 500) (Fin (- 20)) initial_state_num)) = [Fin 180] \<and>
   getXAngle (setServoAngles_num no_handlers (Fin 45) (Fin 200) initial_state_num) = Fin 45"
proof -
  have r: "le (servoMinAngle initial_state_num) (servoMaxAngle initial_state_num)"
    by (simp add: initial_state_num_def)
  have n: "angleChangedHandler (no_handlers :: nhandlers) = None"
    by (simp add: no_handlers_def)
  note plain = setServoAngles_constrained [of no_handlers "Fin 45" "Fin 200"
      initial_state_num, THEN conjunct1, THEN mp, OF n]
  have a: "Fin 500 \<noteq> NaN \<and> Fin (- 20) \<noteq> NaN \<and>
      le (servoMinAngle initial_state_num) (servoMaxAngle initial_state_num)"
    using r by simp
  have b: "PosInf \<noteq> NaN \<and> NegInf \<noteq> NaN \<and>
      le (servoMinAngle initial_state_num) (servoMaxAngle initial_state_num)"
    using r by simp
  note fin = setServoAngles_constrained [of "onAngleChanged showAngles no_handlers"
      "Fin 500" "Fin (- 20)" initial_state_num, THEN conjunct2, THEN conjunct2, THEN mp, OF a]
  note inf = setServoAngles_constrained [of "onAngleChanged showAngles no_handlers"
      PosInf NegInf initial_state_num, THEN conjunct2, THEN conjunct2, THEN mp, OF b]
  from r fin inf plain show ?thesis
    by (simp add: initial_state_num_def constrain_num_def gt_def)
qed

text \<open>
  C9 as the specification states it has the angles within the limits after a call
  with any arguments. \<open>setServoAngles(NaN, 90)\<close> on the initial state, whose limits
  are 0 and 180, stores \<open>NaN\<close>: \<open>getXAngle\<close> returns it, it is not within the limits,
  and it is what the servo is written.
\<close>

theorem setServoAngles_nan_counterexample:
  "le (servoMinAngle initial_state_num) (servoMaxAngle initial_state_num) \<and>
   getXAngle (setServoAngles_num no_handlers NaN (Fin 90) initial_state_num) = NaN \<and>
   \<not> le (servoMinAngle (setServoAngles_num no_handlers NaN (Fin 90) initial_state_num))
         (getXAngle (setServoAngles_num no_handlers NaN (Fin 90) initial_state_num)) \<and>
   \<not> le (getXAngle (setServoAngles_num no_handlers NaN (Fin 90) initial_state_num))
         (servoMaxAngle (setServoAngles_num no_handlers NaN (Fin 90) initial_state_num)) \<and>
   servoWrites X (issued initial_state_num
     (setServoAngles_num no_handlers NaN (Fin 90) initial_state_num)) = [NaN]"
  by (simp add: setServoAngles_num_def moveServos_num_unregistered no_handlers_def
      getXAngle_def issued_def moveServoX_num_trace moveServoY_num_trace
      initial_state_num_def constrain_num_def gt_def)

text \<open>
  C10. On a gated pass with the button pressed and a button callback registered, the
  button branch runs the callback and does not apply the default: the angles after
  the pass are those the callback leaves, not \<open>angleInit\<close>, and a callback that does
  not touch the angles leaves those of the axis decision. The pass still counts as
  acted: \<open>updated\<close> is set, \<open>lastActionTime\<close> becomes \<open>now\<close>, and \<open>moveServos\<close>
  runs, without a write when neither angle differs from the last commanded one.
\<close>

theorem button_handler_replaces_default:
  assumes "currentTime i - lastActionTime s > 100" and "buttonState i = 0"
    and "buttonPressedHandler hs = Some h"
  shows
    "xAngle (loopBody hs i s) =
       xAngle (h (emit ButtonPressedCall (axisDecision i (debugReadings i s)))) \<and>
     yAngle (loopBody hs i s) =
       yAngle (h (emit ButtonPressedCall (axisDecision i (debugReadings i s)))) \<and>
     (xAngle (h (emit ButtonPressedCall (axisDecision i (debugReadings i s))))
        = xAngle (emit ButtonPressedCall (axisDecision i (debugReadings i s))) \<longrightarrow>
      xAngle (loopBody hs i s) = xAngle (axisDecision i s)) \<and>
     (yAngle (h (emit ButtonPressedCall (axisDecision i (debugReadings i s))))
        = yAngle (emit ButtonPressedCall (axisDecision i (debugReadings i s))) \<longrightarrow>
      yAngle (loopBody hs i s) = yAngle (axisDecision i s)) \<and>
     updated (loopBody hs i s) \<and>
     lastActionTime (loopBody hs i s) = currentTime i \<and>
     loopBody hs i s =
       emit (Pause 50)
         (moveServos hs
            ((buttonBranch hs i (axisDecision i (debugReadings i s)))
             \<lparr>lastActionTime := currentTime i\<rparr>)) \<and>
     (xAngle (buttonBranch hs i (axisDecision i (debugReadings i s)))
        = lastXAngle (buttonBranch hs i (axisDecision i (debugReadings i s))) \<and>
      yAngle (buttonBranch hs i (axisDecision i (debugReadings i s)))
        = lastYAngle (buttonBranch hs i (axisDecision i (debugReadings i s))) \<longrightarrow>
      loopBody hs i s =
        emit (Pause 50)
          ((buttonBranch hs i (axisDecision i (debugReadings i s)))
           \<lparr>lastActionTime := currentTime i\<rparr>))"
proof -
  let ?d = "axisDecision i (debugReadings i s)"
  let ?b = "buttonBranch hs i ?d"
  have b: "?b = debug SerialButtonPressed ((h (emit ButtonPressedCall ?d))\<lparr>updated := True\<rparr>)"
    using assms(2,3) by (simp add: buttonBranch_def)
  have body: "loopBody hs i s =
      emit (Pause 50) (moveServos hs (?b\<lparr>lastActionTime := currentTime i\<rparr>))"
    unfolding b by (rule loopBody_pressed_handler [OF assms])
  have x: "xAngle (loopBody hs i s) = xAngle (h (emit ButtonPressedCall ?d))"
    and y: "yAngle (loopBody hs i s) = yAngle (h (emit ButtonPressedCall ?d))"
    and u: "updated (loopBody hs i s)"
    and t: "lastActionTime (loopBody hs i s) = currentTime i"
    by (simp_all add: loopBody_pressed_handler [OF assms])
  have dx: "xAngle (emit ButtonPressedCall ?d) = xAngle (axisDecision i s)"
    and dy: "yAngle (emit ButtonPressedCall ?d) = yAngle (axisDecision i s)"
    by (simp_all add: axisDecision_xAngle axisDecision_yAngle)
  have quiet: "loopBody hs i s = emit (Pause 50) (?b\<lparr>lastActionTime := currentTime i\<rparr>)"
    if "xAngle ?b = lastXAngle ?b \<and> yAngle ?b = lastYAngle ?b"
  proof -
    from that have "moveServos hs (?b\<lparr>lastActionTime := currentTime i\<rparr>)
        = ?b\<lparr>lastActionTime := currentTime i\<rparr>"
      by (intro moveServos_same) simp_all
    with body show ?thesis
      by simp
  qed
  show ?thesis
  proof (intro conjI impI)
    show "loopBody hs i s =
        emit (Pause 50) (moveServos hs (?b\<lparr>lastActionTime := currentTime i\<rparr>))"
      by (rule body)
  qed (simp_all only: x y u t dx dy quiet)
qed

theorem button_handler_replaces_default_witness:
  "xAngle (loopBody (onButtonPressed (setServoAngles no_handlers 30 40) no_handlers)
      \<lparr>currentTime = 200, xValue = 770, yValue = 100, buttonState = 0\<rparr> initial_state) = 30 \<and>
   yAngle (loopBody (onButtonPressed (setServoAngles no_handlers 30 40) no_handlers)
      \<lparr>currentTime = 200, xValue = 770, yValue = 100, buttonState = 0\<rparr> initial_state) = 40 \<and>
   xAngle (loopBody (onButtonPressed (setDebugMode True) no_handlers)
      \<lparr>currentTime = 200, xValue = 770, yValue = 100, buttonState = 0\<rparr> initial_state) = 105 \<and>
   yAngle (loopBody (onButtonPressed (setDebugMode True) no_handlers)
      \<lparr>currentTime = 200, xValue = 770, yValue = 100, buttonState = 0\<rparr> initial_state) = 75 \<and>
   lastActionTime (loopBody (onButtonPressed (setDebugMode True) no_handlers)
      \<lparr>currentTime = 200, xValue = 500, yValue = 500, buttonState = 0\<rparr> initial_state) = 200 \<and>
   servoWrites X (issued initial_state
     (loopBody (onButtonPressed (setDebugMode False) no_handlers)
      \<lparr>currentTime = 200, xValue = 500, yValue = 500, buttonState = 0\<rparr> initial_state)) = []"
proof -
  let ?i = "\<lparr>currentTime = 200, xValue = 770, yValue = 100, buttonState = 0\<rparr>"
  let ?j = "\<lparr>currentTime = 200, xValue = 500, yValue = 500, buttonState = 0\<rparr>"
  have g: "currentTime ?i - lastActionTime initial_state > 100" "buttonState ?i = 0"
    "currentTime ?j - lastActionTime initial_state > 100" "buttonState ?j = 0"
    by (simp_all add: initial_state_def)
  have r: "buttonPressedHandler (onButtonPressed f no_handlers) = Some f" for f
    by (simp add: onButtonPressed_def)
  note a = button_handler_replaces_default [OF g(1,2) r [of "setServoAngles no_handlers 30 40"]]
  note b = button_handler_replaces_default [OF g(1,2) r [of "setDebugMode True"]]
  note c = button_handler_replaces_default [OF g(3,4) r [of "setDebugMode True"]]
  note d = button_handler_replaces_default [OF g(3,4) r [of "setDebugMode False"]]
  have x30: "xAngle (loopBody (onButtonPressed (setServoAngles no_handlers 30 40) no_handlers)
      ?i initial_state) = 30"
    unfolding a [THEN conjunct1]
    by (simp add: setServoAngles_def constrain_def initial_state_def)
  have y40: "yAngle (loopBody (onButtonPressed (setServoAngles no_handlers 30 40) no_handlers)
      ?i initial_state) = 40"
    unfolding a [THEN conjunct2, THEN conjunct1]
    by (simp add: setServoAngles_def constrain_def initial_state_def)
  have keeps: "xAngle (setDebugMode e t) = xAngle t" "yAngle (setDebugMode e t) = yAngle t"
    "lastXAngle (setDebugMode e t) = lastXAngle t" "lastYAngle (setDebugMode e t) = lastYAngle t"
    for e t
    by (simp_all add: setDebugMode_def Let_def)
  have x105: "xAngle (loopBody (onButtonPressed (setDebugMode True) no_handlers)
      ?i initial_state) = 105"
    unfolding b [THEN conjunct2, THEN conjunct2, THEN conjunct1, THEN mp, OF keeps(1)]
    by (simp add: axisDecision_xAngle initial_state_def)
  have y75: "yAngle (loopBody (onButtonPressed (setDebugMode True) no_handlers)
      ?i initial_state) = 75"
    unfolding b [THEN conjunct2, THEN conjunct2, THEN conjunct2, THEN conjunct1, THEN mp,
        OF keeps(2)]
    by (simp add: axisDecision_yAngle initial_state_def)
  have t200: "lastActionTime (loopBody (onButtonPressed (setDebugMode True) no_handlers)
      ?j initial_state) = 200"
    unfolding c [THEN conjunct2, THEN conjunct2, THEN conjunct2, THEN conjunct2,
        THEN conjunct2, THEN conjunct1]
    by simp
  have same: "xAngle (buttonBranch (onButtonPressed (setDebugMode False) no_handlers) ?j
        (axisDecision ?j (debugReadings ?j initial_state)))
      = lastXAngle (buttonBranch (onButtonPressed (setDebugMode False) no_handlers) ?j
        (axisDecision ?j (debugReadings ?j initial_state))) \<and>
     yAngle (buttonBranch (onButtonPressed (setDebugMode False) no_handlers) ?j
        (axisDecision ?j (debugReadings ?j initial_state)))
      = lastYAngle (buttonBranch (onButtonPressed (setDebugMode False) no_handlers) ?j
        (axisDecision ?j (debugReadings ?j initial_state)))"
    by (simp add: buttonBranch_def r keeps axisDecision_xAngle axisDecision_yAngle
        initial_state_def)
  have w: "servoWrites X (issued initial_state
      (loopBody (onButtonPressed (setDebugMode False) no_handlers) ?j initial_state)) = []"
    unfolding d [THEN conjunct2, THEN conjunct2, THEN conjunct2, THEN conjunct2,
        THEN conjunct2, THEN conjunct2, THEN conjunct2, THEN mp, OF same]
    by (simp add: issued_def buttonBranch_def r setDebugMode_def Let_def debugReadings_trace
        initial_state_def)
  from x30 y40 x105 y75 t200 w show ?thesis
    by simp
qed

end
